theory Spec2Isabelle
  imports Complex_Main "HOL-Library.Sublist" "HOL-Library.AList" "HOL-Library.Char_ord"
    "HOL-Library.List_Lexorder" "HOL-Library.Product_Lexorder"
begin

section \<open>Python values used by the sources\<close>

text \<open>
  The exceptions that the modelled functions can raise. A function that can raise returns
  \<open>py_error + 'a\<close>, with \<open>Inl\<close> the exception.
\<close>

datatype py_error = ValueError | IndexError | KeyError | AttributeError | TypeError | AssertionError

text \<open>Sequencing of computations that can raise: the first exception wins.\<close>

definition bind_err :: "py_error + 'a \<Rightarrow> ('a \<Rightarrow> py_error + 'b) \<Rightarrow> py_error + 'b" where
  "bind_err m f = (case m of Inl e \<Rightarrow> Inl e | Inr v \<Rightarrow> f v)"

text \<open>\<^verbatim>\<open>xs[0]\<close>: raises IndexError on an empty list.\<close>

definition first :: "'a list \<Rightarrow> py_error + 'a" where
  "first xs = (case xs of [] \<Rightarrow> Inl IndexError | x # _ \<Rightarrow> Inr x)"

subsection \<open>Strings\<close>

text \<open>
  Strings are ASCII texts. \<^verbatim>\<open>s.split(sep)\<close> for a one-character separator cuts at every
  occurrence and always returns at least one piece.
\<close>

fun split_on :: "char \<Rightarrow> string \<Rightarrow> string list" where
  "split_on sep [] = [[]]"
| "split_on sep (c # cs) =
     (if c = sep then [] # split_on sep cs
      else (case split_on sep cs of [] \<Rightarrow> [[c]] | p # ps \<Rightarrow> (c # p) # ps))"

text \<open>\<^verbatim>\<open>sep.join(xs)\<close>.\<close>

fun py_join :: "string \<Rightarrow> string list \<Rightarrow> string" where
  "py_join sep [] = []"
| "py_join sep [x] = x"
| "py_join sep (x # y # ys) = x @ sep @ py_join sep (y # ys)"

text \<open>
  \<^verbatim>\<open>s.replace(old, new)\<close>: the occurrences of \<open>old\<close> are replaced from left to right,
  without overlap; an empty \<open>old\<close> matches before every character and at the end.
\<close>

fun py_replace :: "string \<Rightarrow> string \<Rightarrow> string \<Rightarrow> string" where
  "py_replace [] old new = (if old = [] then new else [])"
| "py_replace (c # cs) old new =
     (if old = [] then new @ c # py_replace cs old new
      else if prefix old (c # cs) then new @ py_replace (drop (length old) (c # cs)) old new
      else c # py_replace cs old new)"

text \<open>
  \<^verbatim>\<open>s.strip()\<close> removes leading and trailing whitespace; in ASCII these are the
  characters 9 to 13, 28 to 32.
\<close>

definition is_space :: "char \<Rightarrow> bool" where
  "is_space c = (let n = (of_char c :: nat) in (9 \<le> n \<and> n \<le> 13) \<or> (28 \<le> n \<and> n \<le> 32))"

definition py_strip :: "string \<Rightarrow> string" where
  "py_strip s = rev (dropWhile is_space (rev (dropWhile is_space s)))"

text \<open>\<^verbatim>\<open>s.upper()\<close> on ASCII: the letters a to z move to A to Z.\<close>

definition to_upper :: "char \<Rightarrow> char" where
  "to_upper c = (let n = (of_char c :: nat) in if 97 \<le> n \<and> n \<le> 122 then char_of (n - 32) else c)"

definition py_upper :: "string \<Rightarrow> string" where
  "py_upper s = map to_upper s"

section \<open>The sensor identifier codec (pyaxiom/utils.py)\<close>

subsection \<open>IoosUrn\<close>

text \<open>
  Modelled from the spec: the class \<^verbatim>\<open>IoosUrn\<close> of pyaxiom/urn.py, which is not among the
  sources. The spec gives the identifier as
  \<^verbatim>\<open>urn:ioos:sensor:<authority>:<station>:<name>[#<clauses>]\<close> and decoding as a split on
  the colons that recovers authority, station and component, the component being split on
  \<^verbatim>\<open>#\<close> afterwards. The clauses hold colons themselves (\<^verbatim>\<open>cell_methods=time:mean\<close>), so
  the component is everything after the fifth colon. An object parsed from a text without
  the \<^verbatim>\<open>urn:ioos:\<close> prefix or with fewer than five fields has no field set and is not
  valid.
\<close>

record IoosUrn =
  asset_type :: "string option"
  authority :: "string option"
  label :: "string option"
  component :: "string option"
  version :: "string option"

definition IoosUrn_from_string :: "string \<Rightarrow> IoosUrn" where
  "IoosUrn_from_string urn_string =
     (let parts = split_on CHR '':'' urn_string in
      if length parts < 5 \<or> take 2 parts \<noteq> [''urn'', ''ioos'']
      then \<lparr>asset_type = None, authority = None, label = None, component = None, version = None\<rparr>
      else \<lparr>asset_type = Some (parts ! 2), authority = Some (parts ! 3), label = Some (parts ! 4),
            component = (if length parts > 5 then Some (py_join '':'' (drop 5 parts)) else None),
            version = None\<rparr>)"

definition valid :: "IoosUrn \<Rightarrow> bool" where
  "valid u = (asset_type u \<noteq> None \<and> authority u \<noteq> None \<and> label u \<noteq> None)"

text \<open>The property \<^verbatim>\<open>urn\<close>: None when the object is not valid.\<close>

definition IoosUrn_urn :: "IoosUrn \<Rightarrow> string option" where
  "IoosUrn_urn u =
     (if \<not> valid u then None
      else Some (''urn:ioos:'' @ the (asset_type u) @ '':'' @ the (authority u) @ '':'' @ the (label u)
                 @ (case component u of None \<Rightarrow> [] | Some c \<Rightarrow> '':'' @ c)
                 @ (case version u of None \<Rightarrow> [] | Some v \<Rightarrow> '':'' @ v)))"

subsection \<open>urnify_from_dict\<close>

text \<open>
  The argument \<^verbatim>\<open>data_dict\<close>: the keys that the function reads. A key that is absent and
  a key bound to None are the same to the function (both fail the test
  \<^verbatim>\<open>'k' in data_dict and data_dict['k']\<close>), so each is an option. The value of
  \<^verbatim>\<open>interval\<close> is a string, or a list or tuple of strings.
\<close>

datatype interval_value = NoInterval | IntervalStr string | IntervalList "string list"

record data_dict =
  standard_name :: "string option"
  name :: "string option"
  bounds :: "string option"
  cell_methods :: "string option"
  vertical_datum :: "string option"
  discriminant :: "string option"
  interval :: interval_value

text \<open>The truth value of an optional string: None and the empty string are false.\<close>

definition truthy :: "string option \<Rightarrow> bool" where
  "truthy v = (case v of None \<Rightarrow> False | Some s \<Rightarrow> s \<noteq> [])"

definition clean_value :: "string \<Rightarrow> string" where
  "clean_value v =
     py_replace (py_strip (py_replace (py_replace v ''('' []) '')'' [])) '' '' ''_''"

text \<open>
  The backwards search \<^verbatim>\<open>for j in reversed(range(0, i)): if cm[j] == " "\<close>: the text
  \<^verbatim>\<open>cm[j+1:i]\<close> after the last space of \<^verbatim>\<open>cm[0:i]\<close>, None when there is no space.
\<close>

definition after_last_space :: "string \<Rightarrow> string option" where
  "after_last_space pre =
     (if CHR '' '' \<in> set pre then Some (rev (takeWhile (\<lambda>c. c \<noteq> CHR '' '') (rev pre))) else None)"

text \<open>
  The loop over \<^verbatim>\<open>enumerate(cm)\<close>. \<open>pre\<close> is \<^verbatim>\<open>cm[0:i]\<close>, the characters already
  read; the state is \<^verbatim>\<open>(keys, values, sofar)\<close>.
\<close>

fun cm_scan :: "string \<Rightarrow> string \<Rightarrow> string list \<times> string list \<times> string
    \<Rightarrow> string list \<times> string list \<times> string" where
  "cm_scan pre [] st = st"
| "cm_scan pre (c # rest) (keys, vals, sofar) =
     cm_scan (pre @ [c]) rest
       (if c = CHR '':'' then
          (if length keys = length vals then (keys @ [clean_value sofar], vals, [])
           else (case after_last_space pre of
                   None \<Rightarrow> (keys, vals, [])
                 | Some seg \<Rightarrow>
                     (let key = clean_value seg
                      in (keys @ [key], vals @ [clean_value (py_replace sofar key [])], []))))
        else (keys, vals, sofar @ [c]))"

text \<open>\<^verbatim>\<open>itertools.groupby(pairs, lambda x: x[0])\<close>: the runs of equal first components.\<close>

function groupby_fst :: "('k \<times> 'v) list \<Rightarrow> ('k \<times> ('k \<times> 'v) list) list" where
  "groupby_fst [] = []"
| "groupby_fst (p # ps) =
     (fst p, p # takeWhile (\<lambda>q. fst q = fst p) ps) # groupby_fst (dropWhile (\<lambda>q. fst q = fst p) ps)"
  by pat_completeness auto
termination
  by (relation "measure length") (auto simp: length_dropWhile_le less_Suc_eq_le)

text \<open>The body of the loop over the groups; the state is \<^verbatim>\<open>(mems, cell_intervals)\<close>.\<close>

definition group_step :: "string list \<times> string list \<Rightarrow> string \<times> (string \<times> string) list
    \<Rightarrow> string list \<times> string list" where
  "group_step st g =
     (case st of (mems, cell_intervals) \<Rightarrow>
      (case g of (grp, members) \<Rightarrow>
        if grp = ''interval'' then (mems, map snd members)
        else if grp \<in> set [''time'', ''area'']
          then (mems @ [py_join '','' (map (\<lambda>m. grp @ '':'' @ snd m) members)], cell_intervals)
        else (mems, cell_intervals)))"

text \<open>
  What the key \<^verbatim>\<open>interval\<close> adds to the intervals: the elements of a list or tuple, a string
  as one token, nothing when the value is false (absent, None, empty).
\<close>

definition interval_tokens :: "interval_value \<Rightarrow> string list" where
  "interval_tokens v =
     (case v of
        NoInterval \<Rightarrow> []
      | IntervalStr s \<Rightarrow> (if s \<noteq> [] then [s] else [])
      | IntervalList l \<Rightarrow> l)"

text \<open>
  The function. \<open>random_name\<close> stands for the eight random letters, lower-cased, that name
  a record with neither \<^verbatim>\<open>standard_name\<close> nor \<^verbatim>\<open>name\<close>. \<^verbatim>\<open>list(set(intervals))\<close>
  removes the repeated tokens; Python leaves the order of the remaining ones open, and
  \<open>remdups\<close> is one such order (the only one when a single token remains).
  \<^verbatim>\<open>sorted(pairs)\<close> orders the pairs of strings lexicographically by character code.
  The result is the \<^verbatim>\<open>urn\<close> property of the object that is built, with no exception
  anywhere on the way.
\<close>

definition urnify_from_dict :: "string \<Rightarrow> string \<Rightarrow> string \<Rightarrow> data_dict \<Rightarrow> string option" where
  "urnify_from_dict random_name naming_authority station_identifier d =
     (let (extras0, intervals0) =
            (if truthy (cell_methods d) then
               (let cm = the (cell_methods d);
                    (keys, vals, sofar) = cm_scan [] cm ([], [], []);
                    vals = vals @ [clean_value sofar];
                    pairs = sort (zip keys vals);
                    (mems, cell_intervals) = foldl group_step ([], []) (groupby_fst pairs)
                in ((if mems \<noteq> [] then [''cell_methods='' @ py_join '','' mems] else []),
                    cell_intervals))
             else ([], []));
          extras1 = extras0 @ (if truthy (bounds d) then [''bounds='' @ the (bounds d)] else []);
          extras2 = extras1 @ (if truthy (vertical_datum d)
                               then [''vertical_datum='' @ the (vertical_datum d)] else []);
          intervals1 = intervals0 @ interval_tokens (interval d);
          variable_name0 =
            (if truthy (standard_name d) then the (standard_name d)
             else if truthy (name d) then the (name d)
             else random_name);
          variable_name1 =
            (if truthy (discriminant d) then variable_name0 @ ''-'' @ the (discriminant d)
             else variable_name0);
          extras3 = extras2 @
            (if intervals1 \<noteq> [] then [''interval='' @ py_join '','' (remdups intervals1)] else []);
          variable_name2 =
            (if extras3 \<noteq> [] then variable_name1 @ ''#'' @ py_join '';'' extras3 else variable_name1)
      in IoosUrn_urn \<lparr>asset_type = Some ''sensor'', authority = Some naming_authority,
                      label = Some station_identifier, component = Some variable_name2,
                      version = None\<rparr>)"

subsection \<open>dictify_urn\<close>

text \<open>
  The returned dict is an association list in insertion order; \<^verbatim>\<open>d[k] = v\<close> is
  \<open>AList.update\<close>, \<^verbatim>\<open>d[k]\<close> is \<open>map_of\<close>.
\<close>

type_synonym py_dict = "(string \<times> string) list"

text \<open>The expression \<^verbatim>\<open>x.replace('_', ' ').replace(':', ': ')\<close>.\<close>

definition spaced :: "string \<Rightarrow> string" where
  "spaced x = py_replace (py_replace x ''_'' '' '') '':'' '': ''"

text \<open>
  The body of the loop over \<^verbatim>\<open>extras.split(';')\<close>; the state is
  \<^verbatim>\<open>(d, intervals, cell_methods)\<close>. \<^verbatim>\<open>key, values = section.split('=')\<close> raises
  ValueError unless the section has exactly one equals sign.
\<close>

definition section_step :: "py_dict \<times> string list \<times> string list \<Rightarrow> string
    \<Rightarrow> py_error + (py_dict \<times> string list \<times> string list)" where
  "section_step st section =
     (case st of (d, intervals, cms) \<Rightarrow>
      (case split_on CHR ''='' section of
         [key, vals] \<Rightarrow>
           if key = ''interval'' then Inr (d, intervals @ split_on CHR '','' vals, cms)
           else if key = ''cell_methods'' then Inr (d, intervals, map spaced (split_on CHR '','' vals))
           else Inr (AList.update key (py_join '' '' (map spaced (split_on CHR '','' vals))) d,
                     intervals, cms)
       | _ \<Rightarrow> Inl ValueError))"

fun sections_loop :: "py_dict \<times> string list \<times> string list \<Rightarrow> string list
    \<Rightarrow> py_error + (py_dict \<times> string list \<times> string list)" where
  "sections_loop st [] = Inr st"
| "sections_loop st (s # ss) =
     (case section_step st s of Inl e \<Rightarrow> Inl e | Inr st' \<Rightarrow> sections_loop st' ss)"

text \<open>\<^verbatim>\<open>for i in intervals: d['cell_methods'] += ' (interval: {})'.format(i.upper())\<close>.\<close>

definition interval_suffixes :: "string list \<Rightarrow> string" where
  "interval_suffixes intervals = concat (map (\<lambda>i. '' (interval: '' @ py_upper i @ '')'') intervals)"

text \<open>
  The parts of the function after the object is parsed and checked, on its component.
  First \<^verbatim>\<open>standard_name, extras = ioos_urn.component.split('#')\<close>, which raises ValueError
  unless the component has exactly one \<^verbatim>\<open>#\<close>, when it has one at all.
\<close>

definition split_component :: "string \<Rightarrow> py_error + (string \<times> string)" where
  "split_component cpt =
     (if CHR ''#'' \<in> set cpt then
        (case split_on CHR ''#'' cpt of [sn, ex] \<Rightarrow> Inr (sn, ex) | _ \<Rightarrow> Inl ValueError)
      else Inr (cpt, []))"

text \<open>
  The dict with the standard name, and with the discriminant when the component (not the
  name alone) holds a hyphen.
\<close>

definition initial_dict :: "string \<Rightarrow> string \<Rightarrow> py_dict" where
  "initial_dict cpt sn =
     (if CHR ''-'' \<in> set cpt then
        AList.update ''standard_name'' (hd (split_on CHR ''-'' sn))
          (AList.update ''discriminant'' (last (split_on CHR ''-'' sn)) [(''standard_name'', sn)])
      else [(''standard_name'', sn)])"

text \<open>The branch on \<^verbatim>\<open>combine_interval\<close>.\<close>

definition combine :: "bool \<Rightarrow> py_dict \<times> string list \<times> string list \<Rightarrow> py_error + py_dict" where
  "combine combine_interval st =
     (case st of (d, intervals, cms) \<Rightarrow>
        if combine_interval then
          (if cms \<noteq> [] \<and> intervals \<noteq> [] then
             (if length cms = length intervals then
                Inr (AList.update ''cell_methods''
                       (py_join '' '' (map (\<lambda>x. fst x @ '' (interval: '' @ py_upper (snd x) @ '')'')
                                         (zip cms intervals))) d)
              else
                Inr (AList.update ''cell_methods'' (py_join '' '' cms @ interval_suffixes intervals) d))
           else if cms \<noteq> [] then
             Inr (AList.update ''cell_methods'' (py_join '' '' cms @ interval_suffixes intervals) d)
           else if intervals \<noteq> [] then Inl ValueError
           else Inr d)
        else
          Inr (AList.update ''interval'' (py_upper (py_join '','' intervals))
                 (AList.update ''cell_methods'' (py_join '' '' cms) d)))"

text \<open>\<^verbatim>\<open>if 'vertical_datum' in d: d['vertical_datum'] = d['vertical_datum'].upper()\<close>.\<close>

definition upper_vertical_datum :: "py_dict \<Rightarrow> py_dict" where
  "upper_vertical_datum d =
     (case map_of d ''vertical_datum'' of
        None \<Rightarrow> d
      | Some v \<Rightarrow> AList.update ''vertical_datum'' (py_upper v) d)"

definition dictify_component :: "string \<Rightarrow> bool \<Rightarrow> py_error + py_dict" where
  "dictify_component cpt combine_interval =
     bind_err (split_component cpt) (\<lambda>(sn, extras).
     bind_err (if extras \<noteq> []
               then sections_loop (initial_dict cpt sn, [], []) (split_on CHR '';'' extras)
               else Inr (initial_dict cpt sn, [], [])) (\<lambda>st.
     bind_err (combine combine_interval st) (\<lambda>d. Inr (upper_vertical_datum d))))"

definition dictify_urn :: "string \<Rightarrow> bool \<Rightarrow> py_error + py_dict" where
  "dictify_urn urn combine_interval =
     (let ioos_urn = IoosUrn_from_string urn in
      if \<not> valid ioos_urn then Inr []
      else if asset_type ioos_urn \<noteq> Some ''sensor'' then Inr []
      else (case component ioos_urn of
              None \<Rightarrow> Inl TypeError
            | Some cpt \<Rightarrow> dictify_component cpt combine_interval))"

section \<open>Arrays and datasets\<close>

subsection \<open>Numbers and masked arrays\<close>

text \<open>
  A float64 is a finite number, an infinity or not-a-number. The finite numbers are taken
  as reals; the operations that depend on the binary format (rounding to decimals,
  addition, conversion to an integer) are parameters of the model, see \<open>ext\<close> below.
  A masked array is a list of cells.
\<close>

datatype fval = Fin real | PInf | NInf | NaN

datatype 'a cell = Masked | Val 'a

definition isfinite :: "fval \<Rightarrow> bool" where
  "isfinite v = (case v of Fin _ \<Rightarrow> True | _ \<Rightarrow> False)"

text \<open>The comparisons \<^verbatim>\<open><\<close> and \<^verbatim>\<open>==\<close> of floats: false whenever a side is not-a-number.\<close>

fun fval_less :: "fval \<Rightarrow> fval \<Rightarrow> bool" where
  "fval_less NaN _ = False"
| "fval_less _ NaN = False"
| "fval_less (Fin a) (Fin b) = (a < b)"
| "fval_less NInf NInf = False"
| "fval_less NInf _ = True"
| "fval_less _ NInf = False"
| "fval_less PInf _ = False"
| "fval_less _ PInf = True"

definition fval_eq :: "fval \<Rightarrow> fval \<Rightarrow> bool" where
  "fval_eq a b = (a = b \<and> a \<noteq> NaN)"

text \<open>\<^verbatim>\<open>np.ma.fix_invalid\<close>: the cells that are not finite become masked.\<close>

definition fix_invalid_cell :: "fval cell \<Rightarrow> fval cell" where
  "fix_invalid_cell c = (case c of Masked \<Rightarrow> Masked | Val v \<Rightarrow> if isfinite v then Val v else Masked)"

definition fix_invalid :: "fval cell list \<Rightarrow> fval cell list" where
  "fix_invalid arr = map fix_invalid_cell arr"


text \<open>\<^verbatim>\<open>a.repeat(n)\<close>: every element n times in a row.\<close>

definition repeat :: "nat \<Rightarrow> 'a list \<Rightarrow> 'a list" where
  "repeat n xs = concat (map (replicate n) xs)"

definition map_cell :: "('a \<Rightarrow> 'b) \<Rightarrow> 'a cell \<Rightarrow> 'b cell" where
  "map_cell f c = (case c of Masked \<Rightarrow> Masked | Val v \<Rightarrow> Val (f v))"

subsection \<open>generic_masked (pyaxiom/utils.py)\<close>

text \<open>
  The attributes that the function reads. \<open>typing\<close> is \<^verbatim>\<open>safe_attribute_typing\<close> at the
  array's element type: None when the conversion raises ValueError. \<open>info\<close> is the pair
  \<^verbatim>\<open>(info.min, info.max)\<close> of the element type.
\<close>

record 'a attrs =
  valid_min :: "'a option"
  valid_max :: "'a option"
  valid_range :: "'a list option"


subsection \<open>The dataset\<close>

text \<open>
  What the classifiers and the flattener read of a dataset. The data of a variable is what
  \<^verbatim>\<open>var[:]\<close> returns, in row-major order: a masked array of numbers, or texts. A global
  attribute is a text or a number.
\<close>

datatype array = Numeric "fval cell list" | Text "string list"

datatype attr = AStr string | ANum fval

record variable =
  vname :: string
  is_S :: bool
  vdimensions :: "string list"
  vsize :: nat
  vdata :: array
  units :: "string option"
  calendar :: "string option"
  vattrs :: "attr attrs"

record dataset =
  featureType :: "attr option"
  dimensions :: "(string \<times> nat) list"
  profile_id_vars :: "variable list"
  timeseries_id_vars :: "variable list"
  sample_dimension_vars :: "variable list"
  instance_dimension_vars :: "variable list"
  t_axes :: "variable list"
  x_axes :: "variable list"
  y_axes :: "variable list"
  z_axes :: "variable list"
  datavars :: "variable list"

text \<open>\<^verbatim>\<open>assert b\<close>.\<close>

definition py_assert :: "bool \<Rightarrow> py_error + unit" where
  "py_assert b = (if b then Inr () else Inl AssertionError)"

text \<open>\<^verbatim>\<open>d[k]\<close> on a dict.\<close>

definition lookup :: "('k \<times> 'v) list \<Rightarrow> 'k \<Rightarrow> py_error + 'v" where
  "lookup d k = (case map_of d k of None \<Rightarrow> Inl KeyError | Some v \<Rightarrow> Inr v)"

definition to_lower :: "char \<Rightarrow> char" where
  "to_lower c = (let n = (of_char c :: nat) in if 65 \<le> n \<and> n \<le> 90 then char_of (n + 32) else c)"

definition py_lower :: "string \<Rightarrow> string" where
  "py_lower s = map to_lower s"

text \<open>
  \<^verbatim>\<open>dsg.featureType.lower()\<close>: AttributeError when the dataset has no such attribute, and
  when the attribute is not a text.
\<close>

definition featureType_lower :: "dataset \<Rightarrow> py_error + string" where
  "featureType_lower dsg =
     (case featureType dsg of
        None \<Rightarrow> Inl AttributeError
      | Some (ANum _) \<Rightarrow> Inl AttributeError
      | Some (AStr s) \<Rightarrow> Inr (py_lower s))"

section \<open>The classifiers\<close>

text \<open>
  \<^verbatim>\<open>IncompleteMultidimensionalProfile.is_mine\<close> (netcdf/sensors/dsg/profile/im.py).
\<close>

definition grid_variable_checks :: "string \<Rightarrow> nat \<Rightarrow> string \<Rightarrow> nat \<Rightarrow> variable \<Rightarrow> py_error + unit" where
  "grid_variable_checks z_name z_size p_name p_size dv =
     bind_err (py_assert (length (vdimensions dv) = 2)) (\<lambda>_.
     bind_err (py_assert (z_name \<in> set (vdimensions dv))) (\<lambda>_.
     bind_err (py_assert (p_name \<in> set (vdimensions dv))) (\<lambda>_.
     py_assert (vsize dv = z_size * p_size))))"

text \<open>
  The body of the \<^verbatim>\<open>try\<close> block; \<open>grid_variable_checks\<close> above is the body of its loop
  over the data variables and the vertical axis.
\<close>

definition profile_checks :: "dataset \<Rightarrow> py_error + unit" where
  "profile_checks dsg =
     (let pvars = profile_id_vars dsg in
      bind_err (py_assert (length pvars = 1)) (\<lambda>_.
      bind_err (featureType_lower dsg) (\<lambda>ft.
      bind_err (py_assert (ft = ''profile'')) (\<lambda>_.
      bind_err (py_assert (length (t_axes dsg) = 1)) (\<lambda>_.
      bind_err (py_assert (length (x_axes dsg) = 1)) (\<lambda>_.
      bind_err (py_assert (length (y_axes dsg) = 1)) (\<lambda>_.
      bind_err (py_assert (length (z_axes dsg) = 1)) (\<lambda>_.
      bind_err (first pvars) (\<lambda>pvar.
      let minimum_dimensions = (if is_S pvar then 2 else 1);
          maximum_dimensions = (if is_S pvar then 3 else (2::nat)) in
      bind_err (py_assert (minimum_dimensions \<le> length (vdimensions pvar)
                           \<and> length (vdimensions pvar) \<le> maximum_dimensions)) (\<lambda>_.
      bind_err (first (t_axes dsg)) (\<lambda>t.
      bind_err (first (x_axes dsg)) (\<lambda>x.
      bind_err (first (y_axes dsg)) (\<lambda>y.
      bind_err (first (z_axes dsg)) (\<lambda>z.
      bind_err (py_assert (vsize t = vsize pvar)) (\<lambda>_.
      bind_err (py_assert (vsize x = vsize pvar)) (\<lambda>_.
      bind_err (py_assert (vsize y = vsize pvar)) (\<lambda>_.
      bind_err (first (vdimensions pvar)) (\<lambda>p_name.
      bind_err (lookup (dimensions dsg) p_name) (\<lambda>p_size.
      bind_err (first (filter (\<lambda>d. d \<noteq> p_name) (vdimensions z))) (\<lambda>z_name.
      bind_err (lookup (dimensions dsg) z_name) (\<lambda>z_size.
      foldl (\<lambda>acc dv. bind_err acc (\<lambda>_. grid_variable_checks z_name z_size p_name p_size dv))
            (Inr ()) (datavars dsg @ [z]))))))))))))))))))))))"

text \<open>\<^verbatim>\<open>except BaseException: return False\<close>: every exception of the body is caught.\<close>

definition profile_is_mine :: "dataset \<Rightarrow> py_error + bool" where
  "profile_is_mine dsg = (case profile_checks dsg of Inl _ \<Rightarrow> Inr False | Inr _ \<Rightarrow> Inr True)"

text \<open>
  The body of the \<^verbatim>\<open>try\<close> block of \<^verbatim>\<open>IncompleteMultidimensionalTimeseries.is_mine\<close>
  (netcdf/sensors/dsg/timeseries/im.py).
\<close>

definition timeseries_checks :: "dataset \<Rightarrow> py_error + unit" where
  "timeseries_checks dsg =
     (let rvars = timeseries_id_vars dsg in
      bind_err (py_assert (length rvars = 1)) (\<lambda>_.
      bind_err (featureType_lower dsg) (\<lambda>ft.
      bind_err (py_assert (ft = ''timeseries'')) (\<lambda>_.
      bind_err (py_assert (length (t_axes dsg) \<ge> 1)) (\<lambda>_.
      bind_err (py_assert (length (x_axes dsg) \<ge> 1)) (\<lambda>_.
      bind_err (py_assert (length (y_axes dsg) \<ge> 1)) (\<lambda>_.
      bind_err (py_assert (sample_dimension_vars dsg = [])) (\<lambda>_.
      bind_err (py_assert (instance_dimension_vars dsg = [])) (\<lambda>_.
      bind_err (first (t_axes dsg)) (\<lambda>t.
      bind_err (py_assert (length (vdimensions t) = 2)) (\<lambda>_.
      bind_err (first rvars) (\<lambda>rvar.
      py_assert (0 \<le> length (vdimensions rvar) \<and> length (vdimensions rvar) \<le> 2)))))))))))))"

text \<open>\<^verbatim>\<open>except AssertionError: return False\<close>: any other exception leaves the function.\<close>

definition timeseries_is_mine :: "dataset \<Rightarrow> py_error + bool" where
  "timeseries_is_mine dsg =
     (case timeseries_checks dsg of
        Inl AssertionError \<Rightarrow> Inr False
      | Inl e \<Rightarrow> Inl e
      | Inr _ \<Rightarrow> Inr True)"

section \<open>The flattener: to_dataframe (netcdf/sensors/dsg/profile/im.py)\<close>

text \<open>
  The operations of numpy, netCDF4 and pygc whose results depend on the binary format of
  the numbers or on a calendar are parameters: rounding to a number of decimals, the
  conversions between numbers, integers and texts (None when numpy raises ValueError),
  the decoding of one time value for given units and calendar, the great-circle distance
  of one pair of positions (start latitude, end latitude, start longitude, end longitude),
  and the addition of two floats.
\<close>

record ext =
  round_to :: "nat \<Rightarrow> fval \<Rightarrow> fval"
  float_to_int :: "fval \<Rightarrow> int"
  str_to_int :: "string \<Rightarrow> int option"
  str_to_float :: "string \<Rightarrow> fval option"
  num2date :: "string \<Rightarrow> string \<Rightarrow> fval \<Rightarrow> fval"
  great_distance :: "fval cell \<Rightarrow> fval cell \<Rightarrow> fval cell \<Rightarrow> fval cell \<Rightarrow> fval"
  fadd :: "fval \<Rightarrow> fval \<Rightarrow> fval"

text \<open>\<^verbatim>\<open>a.astype(np.float64)\<close> and \<^verbatim>\<open>a.astype(int)\<close>.\<close>

definition astype_float64 :: "ext \<Rightarrow> array \<Rightarrow> py_error + fval cell list" where
  "astype_float64 e a =
     (case a of
        Numeric cs \<Rightarrow> Inr cs
      | Text ss \<Rightarrow> (if \<forall>s \<in> set ss. str_to_float e s \<noteq> None
                    then Inr (map (\<lambda>s. Val (the (str_to_float e s))) ss)
                    else Inl ValueError))"

definition astype_int :: "ext \<Rightarrow> array \<Rightarrow> py_error + int cell list" where
  "astype_int e a =
     (case a of
        Numeric cs \<Rightarrow> Inr (map (map_cell (float_to_int e)) cs)
      | Text ss \<Rightarrow> (if \<forall>s \<in> set ss. str_to_int e s \<noteq> None
                    then Inr (map (\<lambda>s. Val (the (str_to_int e s))) ss)
                    else Inl ValueError))"

text \<open>
  The instance identifiers: the profile variable as integers, or
  \<^verbatim>\<open>range(len(pvar))\<close> when the conversion raises ValueError; \<^verbatim>\<open>len(pvar)\<close> is the size
  \<open>ps\<close> of the first dimension of the variable.
\<close>

definition instance_ids :: "ext \<Rightarrow> variable \<Rightarrow> nat \<Rightarrow> py_error + int cell list" where
  "instance_ids e pvar ps =
     (case astype_int e (vdata pvar) of
        Inr a \<Rightarrow> Inr a
      | Inl ValueError \<Rightarrow> Inr (map (\<lambda>i. Val (int i)) [0..<ps])
      | Inl err \<Rightarrow> Inl err)"

text \<open>\<^verbatim>\<open>np.cumsum\<close> with the addition \<open>f\<close>.\<close>

fun cumsum_from :: "('a \<Rightarrow> 'a \<Rightarrow> 'a) \<Rightarrow> 'a \<Rightarrow> 'a list \<Rightarrow> 'a list" where
  "cumsum_from f acc [] = []"
| "cumsum_from f acc (a # as) = f acc a # cumsum_from f (f acc a) as"

definition cumsum :: "('a \<Rightarrow> 'a \<Rightarrow> 'a) \<Rightarrow> 'a list \<Rightarrow> 'a list" where
  "cumsum f xs = (case xs of [] \<Rightarrow> [] | a # as \<Rightarrow> a # cumsum_from f a as)"

text \<open>
  The distance column: 0 followed by the distances between the consecutive rows
  (\<^verbatim>\<open>y[0:-1]\<close>, \<^verbatim>\<open>y[1:]\<close>, \<^verbatim>\<open>x[0:-1]\<close>, \<^verbatim>\<open>x[1:]\<close>), summed up, rounded to 2 decimals, and
  only then repaired.
\<close>

definition distance_column :: "ext \<Rightarrow> fval cell list \<Rightarrow> fval cell list \<Rightarrow> fval cell list" where
  "distance_column e x y =
     (let steps = map (\<lambda>((y0, y1), (x0, x1)). great_distance e y0 y1 x0 x1)
                    (zip (zip (butlast y) (tl y)) (zip (butlast x) (tl x)));
          d = cumsum (fadd e) (Fin 0 # steps)
      in fix_invalid (map (\<lambda>v. Val (round_to e 2 v)) d))"

text \<open>
  One data variable in the loop over \<^verbatim>\<open>self.datavars()\<close>: rounded to 3 decimals, then
  repaired.
\<close>

definition datavar_column :: "ext \<Rightarrow> variable \<Rightarrow> py_error + fval cell list" where
  "datavar_column e x =
     bind_err (astype_float64 e (vdata x))
       (\<lambda>a. Inr (fix_invalid (map (map_cell (round_to e 3)) a)))"

text \<open>
  \<^verbatim>\<open>(building_index_to_drop == True) & (vdata.mask == True)\<close>. The mask of an array
  without a masked cell is the scalar False, which combines with an index of any length;
  two arrays combine when they have the same length or one of them has length 1, and
  numpy raises ValueError otherwise.
\<close>

definition and_mask :: "bool list \<Rightarrow> fval cell list \<Rightarrow> py_error + bool list" where
  "and_mask b vd =
     (if Masked \<notin> set vd then Inr (map (\<lambda>_. False) b)
      else if length vd = length b then Inr (map (\<lambda>(x, c). x \<and> c = Masked) (zip b vd))
      else if length vd = 1 then Inr (map (\<lambda>x. x \<and> hd vd = Masked) b)
      else if length b = 1 then Inr (map (\<lambda>c. hd b \<and> c = Masked) vd)
      else Inl ValueError)"

definition datavar_step :: "ext \<Rightarrow> py_error + (bool list \<times> (string \<times> fval cell list) list) \<Rightarrow> variable
    \<Rightarrow> py_error + (bool list \<times> (string \<times> fval cell list) list)" where
  "datavar_step e acc x =
     bind_err acc (\<lambda>(b, df_data).
     bind_err (datavar_column e x) (\<lambda>vd.
     bind_err (and_mask b vd) (\<lambda>b'.
     Inr (b', AList.update (vname x) vd df_data))))"

text \<open>
  A table: the columns in insertion order and the row labels. A masked cell is the
  missing value in the table, which pandas stores as not-a-number.
\<close>

record dataframe =
  columns :: "(string \<times> fval list) list"
  index :: "nat list"

definition na_of_cell :: "fval cell \<Rightarrow> fval" where
  "na_of_cell c = (case c of Masked \<Rightarrow> NaN | Val v \<Rightarrow> v)"

text \<open>\<^verbatim>\<open>pd.DataFrame(df_data)\<close>: ValueError unless all the arrays have one length.\<close>

definition DataFrame :: "(string \<times> fval cell list) list \<Rightarrow> py_error + dataframe" where
  "DataFrame df_data =
     (case df_data of
        [] \<Rightarrow> Inr \<lparr>columns = [], index = []\<rparr>
      | (_, c) # _ \<Rightarrow>
          if \<forall>kc \<in> set df_data. length (snd kc) = length c
          then Inr \<lparr>columns = map (\<lambda>(k, col). (k, map na_of_cell col)) df_data,
                    index = [0..<length c]\<rparr>
          else Inl ValueError)"

text \<open>\<^verbatim>\<open>df.dropna(axis=1, how='all')\<close>: the columns with a value that is not missing stay.\<close>

definition dropna_columns :: "dataframe \<Rightarrow> dataframe" where
  "dropna_columns df = df\<lparr>columns := filter (\<lambda>(k, col). \<exists>v \<in> set col. v \<noteq> NaN) (columns df)\<rparr>"

text \<open>
  \<^verbatim>\<open>df.iloc[keep]\<close> with a list of booleans: IndexError unless it has one boolean per
  row.
\<close>

definition select :: "bool list \<Rightarrow> 'a list \<Rightarrow> 'a list" where
  "select keep xs = map snd (filter fst (zip keep xs))"

definition iloc_mask :: "dataframe \<Rightarrow> bool list \<Rightarrow> py_error + dataframe" where
  "iloc_mask df keep =
     (if length keep \<noteq> length (index df) then Inl IndexError
      else Inr \<lparr>columns = map (\<lambda>(k, col). (k, select keep col)) (columns df),
                index = select keep (index df)\<rparr>)"

text \<open>
  Reading the time axis: \<^verbatim>\<open>tvar.units\<close> raises AttributeError when the variable has no
  units, the calendar defaults to \<^verbatim>\<open>standard\<close>, and \<^verbatim>\<open>num2date\<close> decodes the numbers
  one by one (it raises TypeError on texts). A single decoded time is made an array of
  length one, which the list of length one already is.
\<close>

definition time_values :: "ext \<Rightarrow> variable \<Rightarrow> py_error + fval cell list" where
  "time_values e tvar =
     (case vdata tvar of
        Text _ \<Rightarrow> (case units tvar of None \<Rightarrow> Inl AttributeError | Some _ \<Rightarrow> Inl TypeError)
      | Numeric cs \<Rightarrow>
          (case units tvar of
             None \<Rightarrow> Inl AttributeError
           | Some u \<Rightarrow> Inr (map (map_cell (num2date e u
                                (case calendar tvar of None \<Rightarrow> ''standard'' | Some c \<Rightarrow> c))) cs)))"

definition to_dataframe :: "ext \<Rightarrow> dataset \<Rightarrow> bool \<Rightarrow> bool \<Rightarrow> py_error + dataframe" where
  "to_dataframe e self clean_cols clean_rows =
     bind_err (first (profile_id_vars self)) (\<lambda>pvar.
     bind_err (first (vdimensions pvar)) (\<lambda>p_name.
     bind_err (lookup (dimensions self) p_name) (\<lambda>ps.
     bind_err (first (z_axes self)) (\<lambda>zvar.
     bind_err (first (filter (\<lambda>d. d \<noteq> p_name) (vdimensions zvar))) (\<lambda>z_name.
     bind_err (lookup (dimensions self) z_name) (\<lambda>zs.
     bind_err (instance_ids e pvar ps) (\<lambda>p0.
     let p = map (map_cell (\<lambda>i. Fin (of_int i))) (repeat zs p0) in
     bind_err (astype_float64 e (vdata zvar)) (\<lambda>z0.
     let z = map (map_cell (round_to e 5)) (fix_invalid z0) in
     bind_err (first (t_axes self)) (\<lambda>tvar.
     bind_err (time_values e tvar) (\<lambda>t0.
     let t = repeat zs t0 in
     bind_err (first (x_axes self)) (\<lambda>xvar.
     bind_err (astype_float64 e (vdata xvar)) (\<lambda>x0.
     let x = map (map_cell (round_to e 5)) (repeat zs (fix_invalid x0)) in
     bind_err (first (y_axes self)) (\<lambda>yvar.
     bind_err (astype_float64 e (vdata yvar)) (\<lambda>y0.
     let y = map (map_cell (round_to e 5)) (repeat zs (fix_invalid y0));
         d = distance_column e x y;
         df_data = [(''t'', t), (''x'', x), (''y'', y), (''z'', z), (''profile'', p), (''distance'', d)];
         building_index_to_drop = replicate (length t) True in
     bind_err (foldl (datavar_step e) (Inr (building_index_to_drop, df_data)) (datavars self))
       (\<lambda>(building_index_to_drop, df_data).
     bind_err (DataFrame df_data) (\<lambda>df.
     let df1 = (if clean_cols then dropna_columns df else df) in
     if clean_rows then iloc_mask df1 (map Not building_index_to_drop) else Inr df1))))))))))))))))"

section \<open>The aggregator: calculated_metadata (netcdf/sensors/dsg/profile/im.py)\<close>

text \<open>
  \<^verbatim>\<open>unique_justseen(iterable)\<close> of pyaxiom/utils.py, without a key function:
  \<^verbatim>\<open>itertools.groupby\<close> starts a new group at every element that is not equal to the
  first element of the running group, and the function returns the first element of each
  group. \<open>eq\<close> is the equality \<^verbatim>\<open>==\<close> of the elements.
\<close>

function unique_justseen :: "('a \<Rightarrow> 'a \<Rightarrow> bool) \<Rightarrow> 'a list \<Rightarrow> 'a list" where
  "unique_justseen eq [] = []"
| "unique_justseen eq (x # xs) = x # unique_justseen eq (dropWhile (\<lambda>y. eq y x) xs)"
  by pat_completeness auto
termination
  by (relation "measure (\<lambda>(eq, xs). length xs)") (auto simp: length_dropWhile_le less_Suc_eq_le)

text \<open>The equality of two positions, as tuples of floats.\<close>

definition pair_eq :: "fval \<times> fval \<Rightarrow> fval \<times> fval \<Rightarrow> bool" where
  "pair_eq a b = (fval_eq (fst a) (fst b) \<and> fval_eq (snd a) (snd b))"

datatype geometry = Point fval fval | LineString "(fval \<times> fval) list"

record profile =
  min_z :: fval
  max_z :: fval
  prof_t :: fval
  prof_x :: fval
  prof_y :: fval
  loc :: geometry

record metadata =
  min_t :: fval
  max_t :: fval
  profiles :: "(fval \<times> profile) list"
  first_loc :: "geometry option"
  geometry :: "geometry option"

text \<open>
  Reading a column as an attribute of the table (\<^verbatim>\<open>df.x\<close>) raises AttributeError when
  the table has no such column; reading it by key (\<^verbatim>\<open>df.groupby('profile')\<close>,
  \<^verbatim>\<open>sort_values('t')\<close>) raises KeyError.
\<close>

definition column_attr :: "dataframe \<Rightarrow> string \<Rightarrow> py_error + fval list" where
  "column_attr df k = (case map_of (columns df) k of None \<Rightarrow> Inl AttributeError | Some c \<Rightarrow> Inr c)"

text \<open>
  The minimum and the maximum of a column skip the missing values and are missing
  themselves when nothing is left.
\<close>

definition nan_min :: "fval list \<Rightarrow> fval" where
  "nan_min vs = (case filter (\<lambda>v. v \<noteq> NaN) vs of
                   [] \<Rightarrow> NaN
                 | v # rest \<Rightarrow> foldl (\<lambda>a b. if fval_less b a then b else a) v rest)"

definition nan_max :: "fval list \<Rightarrow> fval" where
  "nan_max vs = (case filter (\<lambda>v. v \<noteq> NaN) vs of
                   [] \<Rightarrow> NaN
                 | v # rest \<Rightarrow> foldl (\<lambda>a b. if fval_less a b then b else a) v rest)"

text \<open>
  \<^verbatim>\<open>pgroup.sort_values('t').iloc[0]\<close>: the position of the first row of the group in
  ascending order of time, the missing times last; among equal times the earliest row of
  the table.
\<close>

definition first_by_time :: "fval list \<Rightarrow> nat list \<Rightarrow> nat" where
  "first_by_time tc rows =
     foldl (\<lambda>best i. if fval_less (tc ! i) (tc ! best) \<or> (tc ! best = NaN \<and> tc ! i \<noteq> NaN)
                      then i else best) (hd rows) (tl rows)"

text \<open>
  The groups of \<^verbatim>\<open>df.groupby('profile')\<close>: one for each value of the column that is not
  missing, in ascending order.
\<close>

definition group_keys :: "fval list \<Rightarrow> fval list" where
  "group_keys pc = foldr (\<lambda>v acc. takeWhile (\<lambda>w. fval_less w v) acc @ v # dropWhile (\<lambda>w. fval_less w v) acc)
                     (remdups (filter (\<lambda>v. v \<noteq> NaN) pc)) []"

definition profile_of :: "dataframe \<Rightarrow> fval list \<Rightarrow> fval \<Rightarrow> py_error + (fval \<times> profile)" where
  "profile_of df pc pid =
     (let rows = filter (\<lambda>i. pc ! i = pid) [0..<length pc] in
      bind_err (lookup (columns df) ''t'') (\<lambda>tc.
      let r = first_by_time tc rows in
      bind_err (column_attr df ''z'') (\<lambda>zc.
      bind_err (column_attr df ''x'') (\<lambda>xc.
      bind_err (column_attr df ''y'') (\<lambda>yc.
      Inr (pid, \<lparr>min_z = nan_min (map (\<lambda>i. zc ! i) rows), max_z = nan_max (map (\<lambda>i. zc ! i) rows),
                 prof_t = tc ! r, prof_x = xc ! r, prof_y = yc ! r, loc = Point (xc ! r) (yc ! r)\<rparr>))))))"

fun collect :: "('a \<Rightarrow> py_error + 'b) \<Rightarrow> 'a list \<Rightarrow> py_error + 'b list" where
  "collect f [] = Inr []"
| "collect f (a # as) =
     (case f a of Inl e \<Rightarrow> Inl e
      | Inr b \<Rightarrow> (case collect f as of Inl e \<Rightarrow> Inl e | Inr bs \<Rightarrow> Inr (b # bs)))"

text \<open>
  The function after the call of \<^verbatim>\<open>to_dataframe\<close>, on the table \<open>df\<close>.
  \<^verbatim>\<open>df.iloc[0]\<close> raises IndexError on a table without rows.
\<close>

definition metadata_of :: "dataframe \<Rightarrow> bool \<Rightarrow> py_error + metadata" where
  "metadata_of df geometries =
     bind_err (lookup (columns df) ''profile'') (\<lambda>pc.
     bind_err (collect (profile_of df pc) (group_keys pc)) (\<lambda>profs.
     bind_err
       (if geometries then
          (if index df = [] then Inl IndexError
           else
             bind_err (column_attr df ''x'') (\<lambda>xc.
             bind_err (column_attr df ''y'') (\<lambda>yc.
             let floc = Point (hd xc) (hd yc);
                 coords = unique_justseen pair_eq (zip xc yc)
             in Inr (Some floc,
                     (if length coords > 1 then Some (LineString coords)
                      else if length coords = 1 then Some floc
                      else None)))))
        else Inr (None, None))
       (\<lambda>(floc, geom).
     bind_err (column_attr df ''t'') (\<lambda>tc.
     Inr \<lparr>min_t = nan_min tc, max_t = nan_max tc, profiles = profs,
          first_loc = floc, geometry = geom\<rparr>))))"

definition calculated_metadata :: "ext \<Rightarrow> dataset \<Rightarrow> bool \<Rightarrow> bool \<Rightarrow> bool \<Rightarrow> py_error + metadata" where
  "calculated_metadata e self geometries clean_cols clean_rows =
     bind_err (to_dataframe e self clean_cols clean_rows) (\<lambda>df. metadata_of df geometries)"

section \<open>Well-formed profile grids\<close>

text \<open>
  The invariant of a variable (the number of its elements is the product of the sizes of
  its dimensions) for a variable of numbers: it holds as many cells as its size says.
\<close>

definition numeric_data :: "variable \<Rightarrow> bool" where
  "numeric_data v = (case vdata v of Numeric cs \<Rightarrow> length cs = vsize v | Text _ \<Rightarrow> False)"

definition data_length :: "array \<Rightarrow> nat" where
  "data_length a = (case a of Numeric cs \<Rightarrow> length cs | Text ss \<Rightarrow> length ss)"

text \<open>
  A profile grid of \<open>P\<close> profiles with \<open>Z\<close> levels: the classifier accepts the dataset, the
  profile variable has the one dimension of size \<open>P\<close> and holds \<open>P\<close> identifiers (numbers or
  texts), the other dimension of the vertical axis has size \<open>Z\<close>, the axes and the data
  variables hold numbers and keep the invariant, and the time axis has units.
\<close>

definition profile_grid :: "dataset \<Rightarrow> nat \<Rightarrow> nat \<Rightarrow> bool" where
  "profile_grid dsg P Z =
     (profile_is_mine dsg = Inr True
      \<and> (case vdimensions (hd (profile_id_vars dsg)) of
           [pn] \<Rightarrow> map_of (dimensions dsg) pn = Some P \<and> vsize (hd (profile_id_vars dsg)) = P
                  \<and> data_length (vdata (hd (profile_id_vars dsg))) = P
                  \<and> (case filter (\<lambda>d. d \<noteq> pn) (vdimensions (hd (z_axes dsg))) of
                        [] \<Rightarrow> False
                      | zn # _ \<Rightarrow> map_of (dimensions dsg) zn = Some Z)
         | _ \<Rightarrow> False)
      \<and> list_all numeric_data (t_axes dsg @ x_axes dsg @ y_axes dsg @ z_axes dsg @ datavars dsg)
      \<and> units (hd (t_axes dsg)) \<noteq> None)"

section \<open>Plain tokens\<close>




section \<open>Example inputs\<close>

text \<open>
  An instance of the parameters: decimal rounding of the finite numbers, truncation to an
  integer, no text that reads as a number, times decoded to themselves, the distance of two
  positions taken on a plane along the axes, and the addition of the finite numbers.
\<close>

definition example_ext :: ext where
  "example_ext =
     \<lparr>round_to = (\<lambda>n v. case v of Fin r \<Rightarrow> Fin (of_int (round (r * 10 ^ n)) / 10 ^ n) | _ \<Rightarrow> v),
      float_to_int = (\<lambda>v. case v of Fin r \<Rightarrow> (if r < 0 then - \<lfloor>- r\<rfloor> else \<lfloor>r\<rfloor>) | _ \<Rightarrow> 0),
      str_to_int = (\<lambda>s. None),
      str_to_float = (\<lambda>s. None),
      num2date = (\<lambda>u c v. v),
      great_distance = (\<lambda>y0 y1 x0 x1.
         case (y0, y1, x0, x1) of
           (Val (Fin a), Val (Fin b), Val (Fin c), Val (Fin d)) \<Rightarrow> Fin (\<bar>b - a\<bar> + \<bar>d - c\<bar>)
         | _ \<Rightarrow> NaN),
      fadd = (\<lambda>a b. case (a, b) of (Fin r, Fin s) \<Rightarrow> Fin (r + s) | _ \<Rightarrow> NaN)\<rparr>"

definition no_attrs :: "attr attrs" where
  "no_attrs = \<lparr>valid_min = None, valid_max = None, valid_range = None\<rparr>"

definition numeric_variable :: "string \<Rightarrow> string list \<Rightarrow> fval cell list \<Rightarrow> variable" where
  "numeric_variable n dims cs =
     \<lparr>vname = n, is_S = False, vdimensions = dims, vsize = length cs, vdata = Numeric cs,
      units = Some ''seconds since 1970-01-01'', calendar = None, vattrs = no_attrs\<rparr>"

text \<open>
  A dataset of two profiles with two levels each and the data variables \<open>dvs\<close>; the last
  level of the second profile has no vertical coordinate.
\<close>

definition example_grid :: "variable list \<Rightarrow> dataset" where
  "example_grid dvs =
     \<lparr>featureType = Some (AStr ''Profile''),
      dimensions = [(''profile'', 2), (''z'', 2)],
      profile_id_vars = [numeric_variable ''profile'' [''profile''] [Val (Fin 7), Val (Fin 9)]],
      timeseries_id_vars = [],
      sample_dimension_vars = [],
      instance_dimension_vars = [],
      t_axes = [numeric_variable ''time'' [''profile''] [Val (Fin 100), Val (Fin 200)]],
      x_axes = [numeric_variable ''lon'' [''profile''] [Val (Fin 1), Val (Fin 2)]],
      y_axes = [numeric_variable ''lat'' [''profile''] [Val (Fin 1), Val (Fin 2)]],
      z_axes = [numeric_variable ''depth'' [''profile'', ''z'']
                  [Val (Fin 0), Val (Fin 5), Val (Fin 3), Masked]],
      datavars = dvs\<rparr>"





text \<open>The grid with one temperature, and no vertical coordinate at all.\<close>

definition masked_depth_grid :: dataset where
  "masked_depth_grid =
     (example_grid [numeric_variable ''temp'' [''profile'', ''z'']
                      [Val (Fin 10), Val (Fin 20), Val (Fin 30), Val (Fin 40)]])
       \<lparr>z_axes := [numeric_variable ''depth'' [''profile'', ''z''] [Masked, Masked, Masked, Masked]]\<rparr>"

text \<open>A record with one interval token and an empty \<^verbatim>\<open>cell_methods\<close>.\<close>

definition interval_only_record :: data_dict where
  "interval_only_record =
     \<lparr>standard_name = Some ''sea_water_temperature'', name = None, bounds = None, cell_methods = Some [],
      vertical_datum = None, discriminant = None, interval = IntervalStr ''PT1H''\<rparr>"

text \<open>A dataset with one timeseries identifier and no \<^verbatim>\<open>featureType\<close> attribute.\<close>

definition untyped_timeseries :: dataset where
  "untyped_timeseries =
     \<lparr>featureType = None,
      dimensions = [(''station'', 2), (''time'', 3)],
      profile_id_vars = [],
      timeseries_id_vars = [numeric_variable ''station'' [''station''] [Val (Fin 1), Val (Fin 2)]],
      sample_dimension_vars = [],
      instance_dimension_vars = [],
      t_axes = [numeric_variable ''time'' [''station'', ''time''] (replicate 6 (Val (Fin 0)))],
      x_axes = [numeric_variable ''lon'' [''station''] [Val (Fin 1), Val (Fin 2)]],
      y_axes = [numeric_variable ''lat'' [''station''] [Val (Fin 1), Val (Fin 2)]],
      z_axes = [],
      datavars = []\<rparr>"

text \<open>
  A table of one profile at time 0 and level 0 whose rows are at the positions \<open>ps\<close>
  (longitude, latitude).
\<close>

definition track_table :: "(fval \<times> fval) list \<Rightarrow> dataframe" where
  "track_table ps =
     \<lparr>columns = [(''t'', map (\<lambda>_. Fin 0) ps), (''x'', map fst ps), (''y'', map snd ps),
                 (''z'', map (\<lambda>_. Fin 0) ps), (''profile'', map (\<lambda>_. Fin 0) ps)],
      index = [0..<length ps]\<rparr>"

section \<open>Properties\<close>

subsection \<open>Exceptions in sequence\<close>

lemma bind_err_Inr [simp]: "bind_err (Inr v) f = f v"
  by (simp add: bind_err_def)

lemma bind_err_Inl [simp]: "bind_err (Inl e) f = Inl e"
  by (simp add: bind_err_def)

lemma bind_err_eq_Inr: "bind_err m f = Inr r \<longleftrightarrow> (\<exists>v. m = Inr v \<and> f v = Inr r)"
  by (cases m) simp_all

subsection \<open>The geometry of the aggregator\<close>

lemma unique_justseen_remdups_adj:
  "(\<And>a b. a \<in> set xs \<Longrightarrow> b \<in> set xs \<Longrightarrow> eq a b = (a = b))
     \<Longrightarrow> unique_justseen eq xs = remdups_adj xs"
proof (induction eq xs rule: unique_justseen.induct)
  case (1 eq)
  then show ?case by simp
next
  case (2 eq x xs)
  have dw: "dropWhile (\<lambda>y. eq y x) xs = dropWhile (\<lambda>y. y = x) xs"
    by (rule dropWhile_cong) (auto simp: 2)
  have sub: "set (dropWhile (\<lambda>y. eq y x) xs) \<subseteq> set xs"
    by (simp add: set_dropWhileD subsetI)
  have "unique_justseen eq (dropWhile (\<lambda>y. eq y x) xs) = remdups_adj (dropWhile (\<lambda>y. eq y x) xs)"
    using sub by (intro 2) (auto simp: 2)
  then show ?case
    using remdups_adj_append_dropWhile [of "[]" x xs] by (simp add: dw)
qed

lemma metadata_of_geometry:
  assumes run: "metadata_of df True = Inr m"
    and xc: "map_of (columns df) ''x'' = Some xc" and yc: "map_of (columns df) ''y'' = Some yc"
  shows "geometry m =
          (let coords = unique_justseen pair_eq (zip xc yc)
           in if length coords > 1 then Some (LineString coords)
              else if length coords = 1 then Some (Point (hd xc) (hd yc))
              else None)"
proof -
  from run obtain pc profs g tc where
    g: "(if index df = [] then Inl IndexError
           else
             bind_err (column_attr df ''x'') (\<lambda>xc.
             bind_err (column_attr df ''y'') (\<lambda>yc.
             let floc = Point (hd xc) (hd yc);
                 coords = unique_justseen pair_eq (zip xc yc)
             in Inr (Some floc,
                     (if length coords > 1 then Some (LineString coords)
                      else if length coords = 1 then Some floc
                      else None))))) = Inr g"
    and m: "m = \<lparr>min_t = nan_min tc, max_t = nan_max tc, profiles = profs,
          first_loc = fst g, geometry = snd g\<rparr>"
    by (auto simp: metadata_of_def bind_err_eq_Inr)
  have cx: "column_attr df ''x'' = Inr xc" and cy: "column_attr df ''y'' = Inr yc"
    by (simp_all add: column_attr_def xc yc)
  from g have "index df \<noteq> []"
    by (auto split: if_splits)
  with g have "snd g = (let coords = unique_justseen pair_eq (zip xc yc)
           in if length coords > 1 then Some (LineString coords)
              else if length coords = 1 then Some (Point (hd xc) (hd yc))
              else None)"
    by (auto simp: cx cy Let_def)
  with m show ?thesis
    by simp
qed


text \<open>
  C6. The geometry collapses only the immediately repeated positions: whenever the
  aggregator returns a summary of a table whose positions have no missing coordinate, the
  geometry is built from the positions with the adjacent duplicates removed (none, the one
  point, or the path through all of them). The table with the positions (1,1), (1,1), (2,2)
  gets the path (1,1), (2,2), the table with the positions (1,1), (1,1) gets the point
  (1,1), and the table with the positions (1,1), (2,2), (1,1) keeps its three points.
\<close>

theorem geometry_collapses_consecutive_duplicates:
  "(metadata_of df True = Inr m \<and> map_of (columns df) ''x'' = Some xc
      \<and> map_of (columns df) ''y'' = Some yc \<and> NaN \<notin> set xc \<union> set yc \<longrightarrow>
    geometry m = (case remdups_adj (zip xc yc) of
                    [] \<Rightarrow> None
                  | [p] \<Rightarrow> Some (Point (fst p) (snd p))
                  | ps \<Rightarrow> Some (LineString ps)))
   \<and> map_sum id geometry
       (metadata_of (track_table [(Fin 1, Fin 1), (Fin 1, Fin 1), (Fin 2, Fin 2)]) True)
     = Inr (Some (LineString [(Fin 1, Fin 1), (Fin 2, Fin 2)]))
   \<and> map_sum id geometry (metadata_of (track_table [(Fin 1, Fin 1), (Fin 1, Fin 1)]) True)
     = Inr (Some (Point (Fin 1) (Fin 1)))
   \<and> map_sum id geometry
       (metadata_of (track_table [(Fin 1, Fin 1), (Fin 2, Fin 2), (Fin 1, Fin 1)]) True)
     = Inr (Some (LineString [(Fin 1, Fin 1), (Fin 2, Fin 2), (Fin 1, Fin 1)]))"
proof (intro conjI impI)
  assume a: "metadata_of df True = Inr m \<and> map_of (columns df) ''x'' = Some xc
      \<and> map_of (columns df) ''y'' = Some yc \<and> NaN \<notin> set xc \<union> set yc"
  then have run: "metadata_of df True = Inr m" and xc: "map_of (columns df) ''x'' = Some xc"
    and yc: "map_of (columns df) ''y'' = Some yc" and nan: "NaN \<notin> set xc \<union> set yc"
    by simp_all
  have "pair_eq p q = (p = q)" if "p \<in> set (zip xc yc)" "q \<in> set (zip xc yc)" for p q
  proof -
    obtain a b where p: "p = (a, b)" by (cases p)
    from that(1) have "a \<in> set xc" "b \<in> set yc"
      unfolding p by (rule set_zip_leftD, rule set_zip_rightD)
    with nan have "a \<noteq> NaN" "b \<noteq> NaN"
      by auto
    then show ?thesis
      by (cases q) (auto simp: pair_eq_def fval_eq_def p)
  qed
  then have uj: "unique_justseen pair_eq (zip xc yc) = remdups_adj (zip xc yc)"
    by (rule unique_justseen_remdups_adj)
  have g: "geometry m =
          (let coords = remdups_adj (zip xc yc)
           in if length coords > 1 then Some (LineString coords)
              else if length coords = 1 then Some (Point (hd xc) (hd yc))
              else None)"
    using metadata_of_geometry [OF run xc yc] by (simp only: uj)
  show "geometry m = (case remdups_adj (zip xc yc) of
                    [] \<Rightarrow> None
                  | [p] \<Rightarrow> Some (Point (fst p) (snd p))
                  | ps \<Rightarrow> Some (LineString ps))"
  proof (cases "remdups_adj (zip xc yc)")
    case Nil
    have "geometry m = None"
      using g unfolding Nil by simp
    then show ?thesis
      unfolding Nil by simp
  next
    case (Cons p ps)
    show ?thesis
    proof (cases ps)
      case Nil
      from Cons have ne: "zip xc yc \<noteq> []"
        by auto
      then obtain a as b bs where ab: "xc = a # as" "yc = b # bs"
        by (cases xc; cases yc) auto
      have "hd (remdups_adj (zip xc yc)) = hd (zip xc yc)"
        by (rule hd_remdups_adj)
      with Cons ab have "p = (a, b)"
        by simp
      moreover have "geometry m = Some (Point (hd xc) (hd yc))"
        using g unfolding Cons Nil by simp
      ultimately show ?thesis
        unfolding Cons Nil by (simp add: ab)
    next
      case (Cons q qs)
      have "geometry m = Some (LineString (p # q # qs))"
        using g unfolding \<open>remdups_adj (zip xc yc) = p # ps\<close> Cons by simp
      then show ?thesis
        unfolding \<open>remdups_adj (zip xc yc) = p # ps\<close> Cons by simp
    qed
  qed
next
  show "map_sum id geometry
       (metadata_of (track_table [(Fin 1, Fin 1), (Fin 1, Fin 1), (Fin 2, Fin 2)]) True)
     = Inr (Some (LineString [(Fin 1, Fin 1), (Fin 2, Fin 2)]))"
    by code_simp
next
  show "map_sum id geometry (metadata_of (track_table [(Fin 1, Fin 1), (Fin 1, Fin 1)]) True)
     = Inr (Some (Point (Fin 1) (Fin 1)))"
    by code_simp
next
  show "map_sum id geometry
       (metadata_of (track_table [(Fin 1, Fin 1), (Fin 2, Fin 2), (Fin 1, Fin 1)]) True)
     = Inr (Some (LineString [(Fin 1, Fin 1), (Fin 2, Fin 2), (Fin 1, Fin 1)]))"
    by code_simp
qed

theorem geometry_collapses_consecutive_duplicates_witness:
  "\<exists>m. metadata_of
          (track_table [(Fin 1, Fin 1), (Fin 2, Fin 2), (Fin 2, Fin 2), (Fin 1, Fin 1)]) True = Inr m
       \<and> geometry m = Some (LineString [(Fin 1, Fin 1), (Fin 2, Fin 2), (Fin 1, Fin 1)])"
proof -
  let ?T = "track_table [(Fin 1, Fin 1), (Fin 2, Fin 2), (Fin 2, Fin 2), (Fin 1, Fin 1)]"
  have "case metadata_of ?T True of Inl _ \<Rightarrow> False | Inr _ \<Rightarrow> True"
    by code_simp
  then obtain m where run: "metadata_of ?T True = Inr m"
    by (cases "metadata_of ?T True") simp_all
  have xc: "map_of (columns ?T) ''x'' = Some [Fin 1, Fin 2, Fin 2, Fin 1]"
    and yc: "map_of (columns ?T) ''y'' = Some [Fin 1, Fin 2, Fin 2, Fin 1]"
    by (simp_all add: track_table_def)
  from geometry_collapses_consecutive_duplicates
    [of ?T m "[Fin 1, Fin 2, Fin 2, Fin 1]" "[Fin 1, Fin 2, Fin 2, Fin 1]", THEN conjunct1]
    run xc yc
  have "geometry m = Some (LineString [(Fin 1, Fin 1), (Fin 2, Fin 2), (Fin 1, Fin 1)])"
    by simp
  with run show ?thesis
    by blast
qed

text \<open>
  C7. On a table without rows the aggregator, asked for the geometry as it is by default,
  raises IndexError at \<^verbatim>\<open>df.iloc[0]\<close>; it returns no summary with the geometry None.
\<close>

theorem metadata_of_empty_table_raises:
  "index df = [] \<Longrightarrow> map_of (columns df) ''profile'' = Some [] \<Longrightarrow> metadata_of df True = Inl IndexError"
  by (simp add: metadata_of_def lookup_def group_keys_def)

theorem metadata_of_empty_table_raises_witness:
  "metadata_of (track_table []) True = Inl IndexError"
  using metadata_of_empty_table_raises [of "track_table []"]
  by (simp add: track_table_def)

subsection \<open>The classifiers\<close>

text \<open>
  C4. The classifier of the timeseries grid catches AssertionError only: on a dataset
  with one timeseries identifier and no \<^verbatim>\<open>featureType\<close> attribute it raises AttributeError,
  where the classifier of the profile grid answers False.
\<close>

theorem timeseries_is_mine_raises:
  "length (timeseries_id_vars dsg) = 1 \<Longrightarrow> featureType dsg = None
     \<Longrightarrow> timeseries_is_mine dsg = Inl AttributeError \<and> profile_is_mine dsg = Inr False"
proof -
  assume one: "length (timeseries_id_vars dsg) = 1" and none: "featureType dsg = None"
  have ft: "featureType_lower dsg = Inl AttributeError"
    by (simp add: featureType_lower_def none)
  have "timeseries_checks dsg = Inl AttributeError"
    by (simp add: timeseries_checks_def py_assert_def one ft)
  then have ts: "timeseries_is_mine dsg = Inl AttributeError"
    by (simp add: timeseries_is_mine_def)
  have "\<exists>err. profile_checks dsg = Inl err"
    by (cases "length (profile_id_vars dsg) = 1") (simp_all add: profile_checks_def py_assert_def ft)
  then have "profile_is_mine dsg = Inr False"
    by (auto simp: profile_is_mine_def)
  with ts show ?thesis by simp
qed

theorem timeseries_is_mine_raises_witness:
  "timeseries_is_mine untyped_timeseries = Inl AttributeError
     \<and> profile_is_mine untyped_timeseries = Inr False"
  using timeseries_is_mine_raises [of untyped_timeseries]
  by (simp add: untyped_timeseries_def)

subsection \<open>The flattener\<close>

lemma length_repeat [simp]: "length (repeat n xs) = n * length xs"
  by (induction xs) (simp_all add: repeat_def)


lemma length_fix_invalid [simp]: "length (fix_invalid a) = length a"
  by (simp add: fix_invalid_def)

lemma length_cumsum_from [simp]: "length (cumsum_from f a xs) = length xs"
  by (induction xs arbitrary: a) simp_all

lemma length_cumsum [simp]: "length (cumsum f xs) = length xs"
  by (cases xs) (simp_all add: cumsum_def)

lemma length_distance_column:
  "length (distance_column e x y) = Suc (min (length y - 1) (length x - 1))"
  by (simp add: distance_column_def Let_def)

lemma checks_foldl:
  "foldl (\<lambda>acc dv. bind_err acc (\<lambda>_. f dv)) a vs = Inr ()
     \<longleftrightarrow> a = Inr () \<and> (\<forall>v \<in> set vs. f v = Inr ())"
  by (induction vs arbitrary: a) (auto simp: bind_err_eq_Inr)

lemma py_assert_Inr [simp]: "py_assert b = Inr u \<longleftrightarrow> b"
  by (simp add: py_assert_def)

lemma first_Inr: "first xs = Inr x \<longleftrightarrow> (\<exists>ys. xs = x # ys)"
  by (cases xs) (auto simp: first_def)

lemma lookup_Inr [simp]: "lookup d k = Inr v \<longleftrightarrow> map_of d k = Some v"
  by (simp add: lookup_def split: option.splits)

lemma length_1_conv: "length xs = Suc 0 \<longleftrightarrow> (\<exists>x. xs = [x])"
  by (cases xs) auto

lemma profile_is_mine_True:
  assumes "profile_is_mine dsg = Inr True"
  shows "\<exists>pvar t x y z pn ps zn zs rest.
           profile_id_vars dsg = [pvar] \<and> t_axes dsg = [t] \<and> x_axes dsg = [x] \<and> y_axes dsg = [y]
           \<and> z_axes dsg = [z] \<and> vsize t = vsize pvar \<and> vsize x = vsize pvar \<and> vsize y = vsize pvar
           \<and> first (vdimensions pvar) = Inr pn \<and> map_of (dimensions dsg) pn = Some ps
           \<and> filter (\<lambda>d. d \<noteq> pn) (vdimensions z) = zn # rest \<and> map_of (dimensions dsg) zn = Some zs
           \<and> (\<forall>dv \<in> set (datavars dsg @ [z]). vsize dv = zs * ps)"
proof -
  from assms have c: "profile_checks dsg = Inr ()"
    by (auto simp: profile_is_mine_def split: sum.splits)
  show ?thesis
    using c
    apply (simp add: profile_checks_def Let_def bind_err_eq_Inr checks_foldl length_1_conv
        grid_variable_checks_def first_Inr del: set_append)
    apply (elim exE conjE)
    apply (simp add: first_Inr)
    done
qed

lemma and_mask_Inr:
  "length vd = length b \<Longrightarrow> \<exists>b'. and_mask b vd = Inr b' \<and> length b' = length b"
  by (simp add: and_mask_def)

lemma update_all:
  "P (k, v) \<Longrightarrow> \<forall>kc \<in> set al. P kc \<Longrightarrow> \<forall>kc \<in> set (AList.update k v al). P kc"
  by (induction al) auto

lemma update_not_Nil: "AList.update k v al \<noteq> []"
  by (cases al) auto

lemma datavar_column_numeric:
  "vdata dv = Numeric cs \<Longrightarrow>
     datavar_column e dv = Inr (fix_invalid (map (map_cell (round_to e 3)) cs))"
  by (simp add: datavar_column_def astype_float64_def)

lemma datavars_fold:
  assumes "\<forall>dv \<in> set dvs. \<exists>cs. vdata dv = Numeric cs \<and> length cs = n"
    and "length b = n" and "\<forall>kc \<in> set cols. length (snd kc) = n"
  shows "\<exists>b' cols'. foldl (datavar_step e) (Inr (b, cols)) dvs = Inr (b', cols') \<and> length b' = n
           \<and> (\<forall>kc \<in> set cols'. length (snd kc) = n)
           \<and> (\<forall>k. k \<notin> vname ` set dvs \<longrightarrow> map_of cols' k = map_of cols k)
           \<and> (cols \<noteq> [] \<longrightarrow> cols' \<noteq> [])"
  using assms
proof (induction dvs arbitrary: b cols)
  case Nil
  then show ?case by simp
next
  case (Cons dv dvs)
  from Cons.prems(1) obtain cs where cs: "vdata dv = Numeric cs" "length cs = n"
    by auto
  let ?vd = "fix_invalid (map (map_cell (round_to e 3)) cs)"
  have len: "length ?vd = length b"
    using cs Cons.prems(2) by simp
  from and_mask_Inr [OF len] obtain b1 where b1: "and_mask b ?vd = Inr b1" "length b1 = n"
    using Cons.prems(2) by auto
  let ?cols1 = "AList.update (vname dv) ?vd cols"
  have step: "datavar_step e (Inr (b, cols)) dv = Inr (b1, ?cols1)"
    by (simp add: datavar_step_def datavar_column_numeric [OF cs(1)] b1)
  have all1: "\<forall>kc \<in> set ?cols1. length (snd kc) = n"
    using Cons.prems(3) cs(2) by (intro update_all) simp_all
  from Cons.prems(1) have rest: "\<forall>dv \<in> set dvs. \<exists>cs. vdata dv = Numeric cs \<and> length cs = n"
    by simp
  from Cons.IH [OF rest b1(2) all1] obtain b' cols' where
    r: "foldl (datavar_step e) (Inr (b1, ?cols1)) dvs = Inr (b', cols')" "length b' = n"
      "\<forall>kc \<in> set cols'. length (snd kc) = n"
      "\<forall>k. k \<notin> vname ` set dvs \<longrightarrow> map_of cols' k = map_of ?cols1 k"
      "?cols1 \<noteq> [] \<longrightarrow> cols' \<noteq> []"
    by blast
  have "\<forall>k. k \<notin> vname ` set (dv # dvs) \<longrightarrow> map_of cols' k = map_of cols k"
    using r(4) by (auto simp: update_conv')
  moreover have "cols' \<noteq> []"
    using r(5) by (simp add: update_not_Nil)
  ultimately show ?case
    using r(1-3) step by simp
qed

lemma DataFrame_Inr:
  assumes "cols \<noteq> []" and "\<forall>kc \<in> set cols. length (snd kc) = n"
  shows "DataFrame cols = Inr \<lparr>columns = map (\<lambda>(k, col). (k, map na_of_cell col)) cols, index = [0..<n]\<rparr>"
proof -
  from assms(1) obtain k c rest where cols: "cols = (k, c) # rest"
    by (cases cols) auto
  with assms(2) have "length c = n" by simp
  then show ?thesis
    using assms(2) by (simp add: DataFrame_def cols)
qed


lemma numeric_data_D: "numeric_data v \<Longrightarrow> \<exists>cs. vdata v = Numeric cs \<and> length cs = vsize v"
  by (cases "vdata v") (simp_all add: numeric_data_def)

lemma profile_grid_facts:
  assumes "profile_grid dsg P Z"
  shows "\<exists>pvar t x y z pn zn rest tc xc yc zc u.
           profile_id_vars dsg = [pvar] \<and> t_axes dsg = [t] \<and> x_axes dsg = [x] \<and> y_axes dsg = [y]
           \<and> z_axes dsg = [z] \<and> vdimensions pvar = [pn] \<and> map_of (dimensions dsg) pn = Some P
           \<and> filter (\<lambda>d. d \<noteq> pn) (vdimensions z) = zn # rest \<and> map_of (dimensions dsg) zn = Some Z
           \<and> data_length (vdata pvar) = P
           \<and> vdata t = Numeric tc \<and> length tc = P \<and> vdata x = Numeric xc \<and> length xc = P
           \<and> vdata y = Numeric yc \<and> length yc = P \<and> vdata z = Numeric zc \<and> length zc = Z * P
           \<and> units t = Some u
           \<and> (\<forall>dv \<in> set (datavars dsg). \<exists>cs. vdata dv = Numeric cs \<and> length cs = Z * P)"
proof -
  from assms have mine: "profile_is_mine dsg = Inr True"
    by (simp add: profile_grid_def)
  from profile_is_mine_True [OF mine] obtain pvar t x y z pn ps zn zs rest where
    f: "profile_id_vars dsg = [pvar]" "t_axes dsg = [t]" "x_axes dsg = [x]" "y_axes dsg = [y]"
      "z_axes dsg = [z]" "vsize t = vsize pvar" "vsize x = vsize pvar" "vsize y = vsize pvar"
      "first (vdimensions pvar) = Inr pn" "map_of (dimensions dsg) pn = Some ps"
      "filter (\<lambda>d. d \<noteq> pn) (vdimensions z) = zn # rest" "map_of (dimensions dsg) zn = Some zs"
      "\<forall>dv \<in> set (datavars dsg @ [z]). vsize dv = zs * ps"
    by blast
  from assms f(1,5,9) have dims: "vdimensions pvar = [pn]"
    by (auto simp: profile_grid_def first_Inr split: list.splits)
  from assms f(1,5,10,11,12) dims have sz: "ps = P" "zs = Z" "vsize pvar = P" "data_length (vdata pvar) = P"
    by (auto simp: profile_grid_def split: list.splits)
  from assms f(1-5) have num: "numeric_data t" "numeric_data x" "numeric_data y" "numeric_data z"
    "\<forall>dv \<in> set (datavars dsg). numeric_data dv" and un: "units t \<noteq> None"
    by (simp_all add: profile_grid_def list_all_iff)
  from numeric_data_D [OF num(1)] f(6) sz obtain tc where tc: "vdata t = Numeric tc" "length tc = P" by auto
  from numeric_data_D [OF num(2)] f(7) sz obtain xc where xc: "vdata x = Numeric xc" "length xc = P" by auto
  from numeric_data_D [OF num(3)] f(8) sz obtain yc where yc: "vdata y = Numeric yc" "length yc = P" by auto
  from numeric_data_D [OF num(4)] f(13) sz obtain zc where zc: "vdata z = Numeric zc" "length zc = Z * P" by auto
  from un obtain u where u: "units t = Some u" by auto
  have dv: "\<forall>dv \<in> set (datavars dsg). \<exists>cs. vdata dv = Numeric cs \<and> length cs = Z * P"
    using num(5) f(13) sz numeric_data_D by fastforce
  show ?thesis
    using f(1-5) dims f(10,11,12) sz tc xc yc zc u dv by blast
qed

lemma instance_ids_length:
  "data_length (vdata pvar) = P \<Longrightarrow> \<exists>p0. instance_ids e pvar P = Inr p0 \<and> length p0 = P"
  by (cases "vdata pvar") (auto simp: instance_ids_def astype_int_def data_length_def)



lemma to_dataframe_grid:
  assumes grid: "profile_grid dsg P Z" and P: "1 \<le> P" and Z: "1 \<le> Z"
  shows "\<exists>p0 b cols. instance_ids e (hd (profile_id_vars dsg)) P = Inr p0 \<and> length p0 = P
      \<and> length b = Z * P \<and> cols \<noteq> [] \<and> (\<forall>kc \<in> set cols. length (snd kc) = Z * P)
      \<and> (''profile'' \<notin> vname ` set (datavars dsg) \<longrightarrow>
           map_of cols ''profile'' = Some (map (map_cell (\<lambda>i. Fin (of_int i))) (repeat Z p0)))
      \<and> (\<forall>cc cr. to_dataframe e dsg cc cr =
            bind_err (DataFrame cols)
              (\<lambda>df. let df1 = (if cc then dropna_columns df else df)
                     in if cr then iloc_mask df1 (map Not b) else Inr df1))"
proof -
  from profile_grid_facts [OF grid] obtain pvar t x y z pn zn rest tc xc yc zc u where
    f: "profile_id_vars dsg = [pvar]" "t_axes dsg = [t]" "x_axes dsg = [x]" "y_axes dsg = [y]"
      "z_axes dsg = [z]" "vdimensions pvar = [pn]" "map_of (dimensions dsg) pn = Some P"
      "filter (\<lambda>d. d \<noteq> pn) (vdimensions z) = zn # rest" "map_of (dimensions dsg) zn = Some Z"
      "data_length (vdata pvar) = P"
      "vdata t = Numeric tc" "length tc = P" "vdata x = Numeric xc" "length xc = P"
      "vdata y = Numeric yc" "length yc = P" "vdata z = Numeric zc" "length zc = Z * P"
      "units t = Some u"
      "\<forall>dv \<in> set (datavars dsg). \<exists>cs. vdata dv = Numeric cs \<and> length cs = Z * P"
    by blast
  from instance_ids_length [OF f(10)] obtain p0 where
    p0: "instance_ids e pvar P = Inr p0" "length p0 = P"
    by blast
  define cal where "cal = (case calendar t of None \<Rightarrow> ''standard'' | Some c \<Rightarrow> c)"
  define tcol where "tcol = repeat Z (map (map_cell (num2date e u cal)) tc)"
  define xcol where "xcol = map (map_cell (round_to e 5)) (repeat Z (fix_invalid xc))"
  define ycol where "ycol = map (map_cell (round_to e 5)) (repeat Z (fix_invalid yc))"
  define zcol where "zcol = map (map_cell (round_to e 5)) (fix_invalid zc)"
  define pcol where "pcol = map (map_cell (\<lambda>i. Fin (of_int i))) (repeat Z p0)"
  define base where "base = [(''t'', tcol), (''x'', xcol), (''y'', ycol), (''z'', zcol),
     (''profile'', pcol), (''distance'', distance_column e xcol ycol)]"
  have pos: "0 < Z * P"
    using P Z by simp
  have lens: "length tcol = Z * P" "length xcol = Z * P" "length ycol = Z * P"
    "length zcol = Z * P" "length pcol = Z * P"
    by (simp_all add: tcol_def xcol_def ycol_def zcol_def pcol_def f p0)
  have dlen: "length (distance_column e xcol ycol) = Z * P"
    using pos by (simp add: length_distance_column lens)
  have base_len: "\<forall>kc \<in> set base. length (snd kc) = Z * P"
    by (simp add: base_def lens dlen)
  from datavars_fold [OF f(20) _ base_len, of "replicate (Z * P) True" e] obtain b cols where
    fold: "foldl (datavar_step e) (Inr (replicate (Z * P) True, base)) (datavars dsg) = Inr (b, cols)"
      "length b = Z * P" "\<forall>kc \<in> set cols. length (snd kc) = Z * P"
      "\<forall>k. k \<notin> vname ` set (datavars dsg) \<longrightarrow> map_of cols k = map_of base k"
      "base \<noteq> [] \<longrightarrow> cols \<noteq> []"
    by auto
  have tv: "time_values e t = Inr (map (map_cell (num2date e u cal)) tc)"
    by (simp add: time_values_def f cal_def)
  have eq: "to_dataframe e dsg cc cr =
            bind_err (DataFrame cols)
              (\<lambda>df. let df1 = (if cc then dropna_columns df else df)
                     in if cr then iloc_mask df1 (map Not b) else Inr df1)" for cc cr
    unfolding to_dataframe_def
    by (simp add: f first_def lookup_def p0 astype_float64_def tv Let_def
        tcol_def [symmetric] xcol_def [symmetric] ycol_def [symmetric] zcol_def [symmetric]
        pcol_def [symmetric] base_def [symmetric] lens fold)
  have "map_of cols ''profile'' = Some pcol" if "''profile'' \<notin> vname ` set (datavars dsg)"
    using fold(4) that by (simp add: base_def)
  moreover have "cols \<noteq> []"
    using fold(5) by (simp add: base_def)
  ultimately show ?thesis
    using p0 fold(2,3) eq f(1) unfolding pcol_def by auto
qed


lemma select_none: "\<forall>k \<in> set keep. \<not> k \<Longrightarrow> select keep xs = []"
  by (auto simp: select_def filter_empty_conv dest: set_zip_leftD)

lemma index_dropna [simp]: "index (dropna_columns df) = index df"
  by (simp add: dropna_columns_def)



text \<open>
  C9. For a dataset without data variables the flattener with \<^verbatim>\<open>clean_rows\<close> returns a
  table without rows whenever it returns, and it does return on a profile grid of
  \<open>P \<ge> 1\<close> profiles with \<open>Z \<ge> 1\<close> levels.
\<close>

theorem no_datavars_no_rows:
  assumes nodv: "datavars dsg = []"
  shows "(\<forall>df. to_dataframe e dsg cc True = Inr df \<longrightarrow>
            index df = [] \<and> (\<forall>kc \<in> set (columns df). snd kc = []))
       \<and> (profile_grid dsg P Z \<and> 1 \<le> P \<and> 1 \<le> Z \<longrightarrow> (\<exists>df. to_dataframe e dsg cc True = Inr df))"
proof (intro conjI allI impI)
  fix df
  assume run: "to_dataframe e dsg cc True = Inr df"
  then obtain n df1 where il: "iloc_mask df1 (map Not (replicate n True)) = Inr df"
    by (auto simp: to_dataframe_def nodv bind_err_eq_Inr Let_def)
  have none: "select (replicate m False) xs = []" for xs :: "'a list" and m
    by (rule select_none) simp
  from il show "index df = []"
    by (auto simp: iloc_mask_def none split: if_splits)
  from il show "\<forall>kc \<in> set (columns df). snd kc = []"
    by (auto simp: iloc_mask_def none split: if_splits)
next
  assume "profile_grid dsg P Z \<and> 1 \<le> P \<and> 1 \<le> Z"
  then have grid: "profile_grid dsg P Z" and P: "1 \<le> P" and Z: "1 \<le> Z"
    by simp_all
  from to_dataframe_grid [OF grid P Z, of e] obtain b cols where
    g: "length b = Z * P" "cols \<noteq> []" "\<forall>kc \<in> set cols. length (snd kc) = Z * P"
      "\<forall>cc cr. to_dataframe e dsg cc cr =
            bind_err (DataFrame cols)
              (\<lambda>df. let df1 = (if cc then dropna_columns df else df)
                     in if cr then iloc_mask df1 (map Not b) else Inr df1)"
    by blast
  show "\<exists>df. to_dataframe e dsg cc True = Inr df"
    using g(4) g(1) by (simp add: DataFrame_Inr [OF g(2,3)] iloc_mask_def Let_def)
qed

theorem no_datavars_no_rows_witness:
  "\<exists>df. to_dataframe example_ext (example_grid []) True True = Inr df \<and> index df = []"
proof -
  have dv: "datavars (example_grid []) = []"
    by (simp add: example_grid_def)
  have grid: "profile_grid (example_grid []) 2 2"
    by code_simp
  from no_datavars_no_rows [OF dv, of example_ext True 2 2] grid show ?thesis
    by auto
qed
















text \<open>
  C8. With \<^verbatim>\<open>clean_cols\<close> the flattener drops every column without a value, the coordinate
  columns among them: on a grid that the classifier accepts and whose vertical axis is
  masked throughout, the table has no column \<^verbatim>\<open>z\<close>.
\<close>

theorem clean_cols_drops_coordinate_column:
  "profile_is_mine masked_depth_grid = Inr True
   \<and> map_sum id (\<lambda>df. map fst (columns df)) (to_dataframe example_ext masked_depth_grid True False)
     = Inr [''t'', ''x'', ''y'', ''profile'', ''distance'', ''temp'']"
  by code_simp


subsection \<open>The codec\<close>

lemma split_on_not_Nil [simp]: "split_on sep s \<noteq> []"
  by (induction s) (auto split: list.splits)

lemma split_on_absent: "sep \<notin> set s \<Longrightarrow> split_on sep s = [s]"
  by (induction s) auto

lemma split_on_append:
  "sep \<notin> set x \<Longrightarrow> split_on sep (x @ sep # y) = x # split_on sep y"
  by (induction x) auto

lemma py_join_Cons: "ys \<noteq> [] \<Longrightarrow> py_join sep (x # ys) = x @ sep @ py_join sep ys"
  by (cases ys) simp_all

lemma join_split: "py_join [sep] (split_on sep s) = s"
proof (induction s)
  case Nil
  then show ?case by simp
next
  case (Cons c s)
  show ?case
  proof (cases "c = sep")
    case True
    then show ?thesis
      using Cons by (simp add: py_join_Cons)
  next
    case False
    obtain p ps where sp: "split_on sep s = p # ps"
      by (cases "split_on sep s") simp_all
    show ?thesis
      using False Cons sp by (cases ps) simp_all
  qed
qed

lemma set_py_join: "set (py_join sep xs) \<subseteq> set sep \<union> \<Union> (set ` set xs)"
  by (induction sep xs rule: py_join.induct) auto

lemma from_string_sensor:
  assumes "CHR '':'' \<notin> set a" and "CHR '':'' \<notin> set l"
  shows "IoosUrn_from_string (''urn:ioos:sensor:'' @ a @ '':'' @ l @ '':'' @ c)
         = \<lparr>asset_type = Some ''sensor'', authority = Some a, label = Some l,
            component = Some c, version = None\<rparr>"
proof -
  have "split_on CHR '':'' (''urn:ioos:sensor:'' @ a @ '':'' @ l @ '':'' @ c)
        = ''urn'' # ''ioos'' # ''sensor'' # a # l # split_on CHR '':'' c"
    using split_on_append [of "CHR '':''" "''urn''"] split_on_append [of "CHR '':''" "''ioos''"]
      split_on_append [of "CHR '':''" "''sensor''"] split_on_append [OF assms(1)]
      split_on_append [OF assms(2)]
    by simp
  then show ?thesis
    using join_split [of "CHR '':''" c] by (simp add: IoosUrn_from_string_def)
qed


lemma dictify_urn_sensor:
  assumes "CHR '':'' \<notin> set a" and "CHR '':'' \<notin> set l"
  shows "dictify_urn (''urn:ioos:sensor:'' @ a @ '':'' @ l @ '':'' @ c) ci = dictify_component c ci"
  by (simp add: dictify_urn_def from_string_sensor [OF assms] valid_def del: append.simps)


lemma split_join:
  "xs \<noteq> [] \<Longrightarrow> \<forall>x \<in> set xs. sep \<notin> set x \<Longrightarrow> split_on sep (py_join [sep] xs) = xs"
proof (induction xs)
  case Nil
  then show ?case by simp
next
  case (Cons x xs)
  show ?case
  proof (cases xs)
    case Nil
    with Cons.prems show ?thesis by (simp add: split_on_absent)
  next
    case (Cons y ys)
    with Cons.prems Cons.IH have "split_on sep (py_join [sep] xs) = xs"
      by simp
    with Cons.prems Cons show ?thesis
      using split_on_append [of sep x "py_join [sep] xs"] by simp
  qed
qed

lemma clause_split:
  "CHR ''='' \<notin> set k \<Longrightarrow> CHR ''='' \<notin> set v \<Longrightarrow> split_on CHR ''='' (k @ ''='' @ v) = [k, v]"
  using split_on_append [of "CHR ''=''" k v] by (simp add: split_on_absent)

lemma urnify_no_cell_methods:
  assumes "\<not> truthy (cell_methods d)"
  shows "urnify_from_dict rnd a l d =
     Some (''urn:ioos:sensor:'' @ a @ '':'' @ l @ '':'' @
       (let vn = (if truthy (standard_name d) then the (standard_name d)
                  else if truthy (name d) then the (name d) else rnd)
                 @ (if truthy (discriminant d) then ''-'' @ the (discriminant d) else []);
            extras = (if truthy (bounds d) then [''bounds='' @ the (bounds d)] else [])
                   @ (if truthy (vertical_datum d) then [''vertical_datum='' @ the (vertical_datum d)] else [])
                   @ (if interval_tokens (interval d) \<noteq> []
                      then [''interval='' @ py_join '','' (remdups (interval_tokens (interval d)))] else [])
        in if extras \<noteq> [] then vn @ ''#'' @ py_join '';'' extras else vn))"
  using assms by (simp add: urnify_from_dict_def Let_def IoosUrn_urn_def valid_def)

lemma sections_loop_append:
  "sections_loop st (xs @ ys) =
     (case sections_loop st xs of Inl e \<Rightarrow> Inl e | Inr st' \<Rightarrow> sections_loop st' ys)"
  by (induction xs arbitrary: st) (auto split: sum.splits)

lemma plain_clause_step:
  assumes "k \<noteq> ''interval''" "k \<noteq> ''cell_methods''" "CHR ''='' \<notin> set k" "CHR ''='' \<notin> set v"
  shows "\<exists>d'. section_step (d, ivs, cms) (k @ ''='' @ v) = Inr (d', ivs, cms)"
  using clause_split [of k v] assms by (simp add: section_step_def)

lemma interval_clause_step:
  assumes "CHR ''='' \<notin> set v"
  shows "section_step (d, ivs, cms) (''interval='' @ v) = Inr (d, ivs @ split_on CHR '','' v, cms)"
  using clause_split [of "''interval''" v] assms by (simp add: section_step_def)


lemma plain_sections:
  assumes "\<forall>s \<in> set secs. \<exists>k v. s = k @ ''='' @ v \<and> k \<noteq> ''interval'' \<and> k \<noteq> ''cell_methods''
              \<and> CHR ''='' \<notin> set k \<and> CHR ''='' \<notin> set v"
  shows "\<exists>d'. sections_loop (d, ivs, cms) secs = Inr (d', ivs, cms)"
  using assms
proof (induction secs arbitrary: d)
  case Nil
  then show ?case by simp
next
  case (Cons s secs)
  from Cons.prems obtain k v where
    kv: "s = k @ ''='' @ v" "k \<noteq> ''interval''" "k \<noteq> ''cell_methods''"
      "CHR ''='' \<notin> set k" "CHR ''='' \<notin> set v"
    by auto
  from plain_clause_step [OF kv(2-5), of d ivs cms] obtain d1 where
    "section_step (d, ivs, cms) s = Inr (d1, ivs, cms)"
    using kv(1) by auto
  moreover from Cons.prems Cons.IH [of d1] obtain d' where
    "sections_loop (d1, ivs, cms) secs = Inr (d', ivs, cms)"
    by auto
  ultimately show ?case by simp
qed

lemma interval_only_raises:
  assumes vn: "CHR ''#'' \<notin> set vn"
    and secs: "\<forall>s \<in> set secs. \<exists>k v. s = k @ ''='' @ v \<and> k \<noteq> ''interval'' \<and> k \<noteq> ''cell_methods''
              \<and> CHR ''='' \<notin> set k \<and> CHR ''='' \<notin> set v"
    and chars: "\<forall>s \<in> set secs. CHR ''#'' \<notin> set s \<and> CHR '';'' \<notin> set s"
    and j: "CHR ''#'' \<notin> set j" "CHR '';'' \<notin> set j" "CHR ''='' \<notin> set j"
  shows "dictify_component (vn @ ''#'' @ py_join '';'' (secs @ [''interval='' @ j])) True = Inl ValueError"
proof -
  let ?all = "secs @ [''interval='' @ j]"
  let ?E = "py_join '';'' ?all"
  have all_chars: "\<forall>s \<in> set ?all. CHR ''#'' \<notin> set s \<and> CHR '';'' \<notin> set s"
    using chars j by auto
  have "set ?E \<subseteq> set '';'' \<union> \<Union> (set ` set ?all)"
    by (rule set_py_join)
  with all_chars have hashE: "CHR ''#'' \<notin> set ?E"
    by auto
  have neE: "?E \<noteq> []"
  proof
    assume "?E = []"
    then have "split_on CHR '';'' (py_join '';'' ?all) = [[]]"
      by simp
    moreover have "split_on CHR '';'' (py_join '';'' ?all) = ?all"
      using all_chars by (intro split_join) auto
    ultimately show False
      by (cases secs) auto
  qed
  have sp: "split_on CHR ''#'' (vn @ ''#'' @ ?E) = [vn, ?E]"
    using split_on_append [OF vn, of ?E] split_on_absent [OF hashE] by simp
  have secs_split: "split_on CHR '';'' ?E = ?all"
    using all_chars by (intro split_join) auto
  define d1 where "d1 = initial_dict (vn @ ''#'' @ ?E) vn"
  from plain_sections [OF secs, of d1 "[]" "[]"] obtain d' where
    l1: "sections_loop (d1, [], []) secs = Inr (d', [], [])"
    by blast
  have loop: "sections_loop (d1, [], []) ?all = Inr (d', split_on CHR '','' j, [])"
    by (simp add: sections_loop_append l1 interval_clause_step [OF j(3)] del: append.simps)
  have hash: "CHR ''#'' \<in> set (vn @ ''#'' @ ?E)"
    by simp
  have spc: "split_component (vn @ ''#'' @ ?E) = Inr (vn, ?E)"
    unfolding split_component_def by (simp only: hash if_True sp list.case)
  show ?thesis
    unfolding dictify_component_def
    by (simp only: spc bind_err_Inr prod.case d1_def [symmetric] neE not_False_eq_True if_True
        secs_split loop)
      (simp add: combine_def)
qed


text \<open>
  C3, as the code has it. The encoder has no check of the intervals against the cell
  methods and returns an identifier for every record. For a record with interval tokens and
  no cell methods, whose texts hold none of the characters \<^verbatim>\<open>#\<close>, \<^verbatim>\<open>;\<close> and \<^verbatim>\<open>=\<close>, and an
  authority and a station without a colon, it is the decoding of this identifier, with the
  intervals combined into the cell methods, that raises ValueError.
\<close>

theorem interval_without_cell_methods:
  assumes cm: "\<not> truthy (cell_methods d)"
    and toks: "interval_tokens (interval d) \<noteq> []"
    and plain: "\<forall>s \<in> {rnd} \<union> set_option (standard_name d) \<union> set_option (name d)
                  \<union> set_option (discriminant d) \<union> set_option (bounds d)
                  \<union> set_option (vertical_datum d) \<union> set (interval_tokens (interval d)).
                set s \<inter> {CHR ''#'', CHR '';'', CHR ''=''} = {}"
    and a: "CHR '':'' \<notin> set a" and l: "CHR '':'' \<notin> set l"
  shows "\<exists>u. urnify_from_dict rnd a l d = Some u \<and> dictify_urn u True = Inl ValueError"
proof -
  define vn where "vn = (if truthy (standard_name d) then the (standard_name d)
                  else if truthy (name d) then the (name d) else rnd)
                 @ (if truthy (discriminant d) then ''-'' @ the (discriminant d) else [])"
  define secs where "secs = (if truthy (bounds d) then [''bounds='' @ the (bounds d)] else [])
                   @ (if truthy (vertical_datum d) then [''vertical_datum='' @ the (vertical_datum d)] else [])"
  define j where "j = py_join '','' (remdups (interval_tokens (interval d)))"
  have opt: "the v \<in> set_option v" if "truthy v" for v
    using that by (cases v) (simp_all add: truthy_def)
  have vn_hash: "CHR ''#'' \<notin> set vn"
    using plain opt [of "standard_name d"] opt [of "name d"] opt [of "discriminant d"]
    by (auto simp: vn_def)
  have "set j \<subseteq> set '','' \<union> \<Union> (set ` set (remdups (interval_tokens (interval d))))"
    unfolding j_def by (rule set_py_join)
  with plain have jc: "CHR ''#'' \<notin> set j" "CHR '';'' \<notin> set j" "CHR ''='' \<notin> set j"
    by auto
  have secs1: "\<forall>s \<in> set secs. \<exists>k v. s = k @ ''='' @ v \<and> k \<noteq> ''interval'' \<and> k \<noteq> ''cell_methods''
              \<and> CHR ''='' \<notin> set k \<and> CHR ''='' \<notin> set v"
  proof
    fix s assume "s \<in> set secs"
    then consider "truthy (bounds d)" "s = ''bounds'' @ ''='' @ the (bounds d)"
      | "truthy (vertical_datum d)" "s = ''vertical_datum'' @ ''='' @ the (vertical_datum d)"
      by (auto simp: secs_def split: if_splits)
    then show "\<exists>k v. s = k @ ''='' @ v \<and> k \<noteq> ''interval'' \<and> k \<noteq> ''cell_methods''
              \<and> CHR ''='' \<notin> set k \<and> CHR ''='' \<notin> set v"
    proof cases
      case 1
      with plain opt [of "bounds d"] have "CHR ''='' \<notin> set (the (bounds d))" by auto
      with 1 show ?thesis
        by (intro exI [of _ "''bounds''"] exI [of _ "the (bounds d)"]) simp
    next
      case 2
      with plain opt [of "vertical_datum d"] have "CHR ''='' \<notin> set (the (vertical_datum d))" by auto
      with 2 show ?thesis
        by (intro exI [of _ "''vertical_datum''"] exI [of _ "the (vertical_datum d)"]) simp
    qed
  qed
  have secs2: "\<forall>s \<in> set secs. CHR ''#'' \<notin> set s \<and> CHR '';'' \<notin> set s"
    using plain opt [of "bounds d"] opt [of "vertical_datum d"]
    by (auto simp: secs_def)
  have enc: "urnify_from_dict rnd a l d
      = Some (''urn:ioos:sensor:'' @ a @ '':'' @ l @ '':'' @ (vn @ ''#'' @ py_join '';'' (secs @ [''interval='' @ j])))"
    using toks
    by (simp add: urnify_no_cell_methods [OF cm] vn_def secs_def j_def Let_def)
  have "dictify_urn (''urn:ioos:sensor:'' @ a @ '':'' @ l @ '':'' @ (vn @ ''#'' @ py_join '';'' (secs @ [''interval='' @ j]))) True
      = Inl ValueError"
    unfolding dictify_urn_sensor [OF a l]
    by (rule interval_only_raises [OF vn_hash secs1 secs2 jc])
  with enc show ?thesis
    by blast
qed

text \<open>
  The claim C3 as it is stated fails: the record with the one interval token PT1H and an
  empty \<^verbatim>\<open>cell_methods\<close> is encoded, without an error.
\<close>

theorem urnify_interval_only_returns:
  "urnify_from_dict ''abcdefgh'' ''axiom'' ''station1'' interval_only_record
     = Some ''urn:ioos:sensor:axiom:station1:sea_water_temperature#interval=PT1H''"
  by code_simp

theorem interval_without_cell_methods_witness:
  "\<exists>u. urnify_from_dict ''abcdefgh'' ''axiom'' ''station1'' interval_only_record = Some u
       \<and> dictify_urn u True = Inl ValueError"
  using interval_without_cell_methods [of interval_only_record "''abcdefgh''" "''axiom''" "''station1''"]
  by (simp add: interval_only_record_def truthy_def interval_tokens_def)

lemma section_step_keeps:
  assumes "section_step (d, ivs, cms) s = Inr (d', ivs', cms')"
  shows "(map_of d k \<noteq> None \<longrightarrow> map_of d' k \<noteq> None)
       \<and> (hd (split_on CHR ''='' s) \<noteq> k \<longrightarrow> map_of d' k = map_of d k)"
  using assms
  by (auto simp: section_step_def update_conv' split: list.splits if_splits)

lemma sections_loop_keeps:
  assumes "sections_loop (d, ivs, cms) secs = Inr (d', ivs', cms')"
  shows "(map_of d k \<noteq> None \<longrightarrow> map_of d' k \<noteq> None)
       \<and> ((\<forall>s \<in> set secs. hd (split_on CHR ''='' s) \<noteq> k) \<longrightarrow> map_of d' k = map_of d k)"
  using assms
proof (induction secs arbitrary: d ivs cms)
  case Nil
  then show ?case by simp
next
  case (Cons s secs)
  from Cons.prems obtain d1 ivs1 cms1 where
    step: "section_step (d, ivs, cms) s = Inr (d1, ivs1, cms1)"
    and rest: "sections_loop (d1, ivs1, cms1) secs = Inr (d', ivs', cms')"
    by (auto split: sum.splits)
  from section_step_keeps [OF step, of k] Cons.IH [OF rest] show ?case
    by auto
qed

lemma combine_keeps:
  assumes "combine ci (d, ivs, cms) = Inr d'"
  shows "(map_of d k \<noteq> None \<longrightarrow> map_of d' k \<noteq> None)
       \<and> (k \<notin> {''cell_methods'', ''interval''} \<longrightarrow> map_of d' k = map_of d k)"
  using assms by (auto simp: combine_def update_conv' split: if_splits)

lemma upper_vertical_datum_keeps:
  "(map_of d k \<noteq> None \<longrightarrow> map_of (upper_vertical_datum d) k \<noteq> None)
   \<and> (k \<noteq> ''vertical_datum'' \<longrightarrow> map_of (upper_vertical_datum d) k = map_of d k)"
  by (auto simp: upper_vertical_datum_def update_conv' split: option.splits)

lemma split_component_Inr:
  "split_component c = Inr (sn, ex) \<Longrightarrow>
     (if CHR ''#'' \<in> set c then split_on CHR ''#'' c = [sn, ex] else sn = c \<and> ex = [])"
  by (auto simp: split_component_def split: if_splits list.splits)

lemma dictify_component_Inr:
  assumes "dictify_component c ci = Inr d"
  obtains sn ex where
    "if CHR ''#'' \<in> set c then split_on CHR ''#'' c = [sn, ex] else sn = c \<and> ex = []"
    "\<And>k. map_of (initial_dict c sn) k \<noteq> None \<Longrightarrow> map_of d k \<noteq> None"
    "\<And>k. k \<notin> {''cell_methods'', ''interval'', ''vertical_datum''}
          \<Longrightarrow> \<forall>s \<in> set (split_on CHR '';'' ex). hd (split_on CHR ''='' s) \<noteq> k
          \<Longrightarrow> map_of d k = map_of (initial_dict c sn) k"
proof -
  from assms obtain p where sp0: "split_component c = Inr p"
    and r1: "(case p of (sn, extras) \<Rightarrow>
       bind_err (if extras \<noteq> []
               then sections_loop (initial_dict c sn, [], []) (split_on CHR '';'' extras)
               else Inr (initial_dict c sn, [], [])) (\<lambda>st.
       bind_err (combine ci st) (\<lambda>d. Inr (upper_vertical_datum d)))) = Inr d"
    unfolding dictify_component_def by (cases "split_component c") simp_all
  obtain sn ex where p: "p = (sn, ex)"
    by (cases p) simp
  define lp where "lp = (if ex \<noteq> []
               then sections_loop (initial_dict c sn, [], []) (split_on CHR '';'' ex)
               else Inr (initial_dict c sn, [], []))"
  from r1 have r1': "bind_err lp (\<lambda>st. bind_err (combine ci st) (\<lambda>d. Inr (upper_vertical_datum d))) = Inr d"
    by (simp add: p lp_def)
  then obtain st where loop0: "lp = Inr st"
    and r2: "bind_err (combine ci st) (\<lambda>d. Inr (upper_vertical_datum d)) = Inr d"
    by (cases lp) simp_all
  obtain d2 ivs cms where st: "st = (d2, ivs, cms)"
    by (cases st) auto
  from r2 obtain d3 where comb: "combine ci (d2, ivs, cms) = Inr d3" and fin: "d = upper_vertical_datum d3"
    unfolding st by (cases "combine ci (d2, ivs, cms)") auto
  have l: "(map_of (initial_dict c sn) k \<noteq> None \<longrightarrow> map_of d2 k \<noteq> None)
       \<and> ((\<forall>s \<in> set (split_on CHR '';'' ex). hd (split_on CHR ''='' s) \<noteq> k)
            \<longrightarrow> map_of d2 k = map_of (initial_dict c sn) k)" for k
  proof (cases "ex \<noteq> []")
    case True
    with loop0 st have "sections_loop (initial_dict c sn, [], []) (split_on CHR '';'' ex) = Inr (d2, ivs, cms)"
      by (simp add: lp_def)
    from sections_loop_keeps [OF this, of k] show ?thesis .
  next
    case False
    with loop0 st show ?thesis by (simp add: lp_def)
  qed
  have a1: "map_of d k \<noteq> None" if "map_of (initial_dict c sn) k \<noteq> None" for k
  proof -
    from that l [of k] have "map_of d2 k \<noteq> None" by simp
    with combine_keeps [OF comb, of k] have "map_of d3 k \<noteq> None" by simp
    with upper_vertical_datum_keeps [of d3 k] show ?thesis by (simp add: fin)
  qed
  have a2: "map_of d k = map_of (initial_dict c sn) k"
    if k: "k \<notin> {''cell_methods'', ''interval'', ''vertical_datum''}"
      and s: "\<forall>s \<in> set (split_on CHR '';'' ex). hd (split_on CHR ''='' s) \<noteq> k" for k
  proof -
    from s l [of k] have "map_of d2 k = map_of (initial_dict c sn) k" by simp
    moreover from k combine_keeps [OF comb, of k] have "map_of d3 k = map_of d2 k" by simp
    moreover from k upper_vertical_datum_keeps [of d3 k] have "map_of d k = map_of d3 k"
      by (simp add: fin)
    ultimately show ?thesis by simp
  qed
  from sp0 p have "split_component c = Inr (sn, ex)" by simp
  from split_component_Inr [OF this] a1 a2 show thesis
    by (rule that)
qed

text \<open>
  C10, as the code has it. When the component of a sensor identifier holds a hyphen
  anywhere, the text after \<^verbatim>\<open>#\<close> included, every dict that the decoder returns has a
  discriminant. When moreover the name before \<^verbatim>\<open>#\<close> holds no hyphen and no clause is
  keyed \<^verbatim>\<open>discriminant\<close> or \<^verbatim>\<open>standard_name\<close>, the discriminant and the standard name
  that are returned are both this name.
\<close>

theorem discriminant_from_clause_text:
  assumes ok: "valid (IoosUrn_from_string urn)" "asset_type (IoosUrn_from_string urn) = Some ''sensor''"
    and c: "component (IoosUrn_from_string urn) = Some c"
    and hyphen: "CHR ''-'' \<in> set c"
    and run: "dictify_urn urn ci = Inr d"
  shows "map_of d ''discriminant'' \<noteq> None
     \<and> (\<forall>sn ex. split_on CHR ''#'' c = [sn, ex] \<and> CHR ''-'' \<notin> set sn
           \<and> (\<forall>s \<in> set (split_on CHR '';'' ex).
                  hd (split_on CHR ''='' s) \<notin> {''discriminant'', ''standard_name''})
         \<longrightarrow> map_of d ''discriminant'' = Some sn \<and> map_of d ''standard_name'' = Some sn)"
proof -
  from run ok c have dc: "dictify_component c ci = Inr d"
    by (simp add: dictify_urn_def)
  from dictify_component_Inr [OF dc] obtain sn ex where
    sp: "if CHR ''#'' \<in> set c then split_on CHR ''#'' c = [sn, ex] else sn = c \<and> ex = []"
    and pres: "\<And>k. map_of (initial_dict c sn) k \<noteq> None \<Longrightarrow> map_of d k \<noteq> None"
    and same: "\<And>k. k \<notin> {''cell_methods'', ''interval'', ''vertical_datum''}
          \<Longrightarrow> \<forall>s \<in> set (split_on CHR '';'' ex). hd (split_on CHR ''='' s) \<noteq> k
          \<Longrightarrow> map_of d k = map_of (initial_dict c sn) k"
    by metis
  have init: "map_of (initial_dict c sn) ''discriminant'' = Some (last (split_on CHR ''-'' sn))"
    "map_of (initial_dict c sn) ''standard_name'' = Some (hd (split_on CHR ''-'' sn))"
    using hyphen by (simp_all add: initial_dict_def update_conv')
  have first: "map_of d ''discriminant'' \<noteq> None"
    by (rule pres) (simp add: init(1))
  have second: "map_of d ''discriminant'' = Some sn' \<and> map_of d ''standard_name'' = Some sn'"
    if h: "split_on CHR ''#'' c = [sn', ex']" "CHR ''-'' \<notin> set sn'"
      "\<forall>s \<in> set (split_on CHR '';'' ex'). hd (split_on CHR ''='' s) \<notin> {''discriminant'', ''standard_name''}"
    for sn' ex'
  proof -
    have "CHR ''#'' \<in> set c"
    proof (rule ccontr)
      assume "CHR ''#'' \<notin> set c"
      then have "split_on CHR ''#'' c = [c]" by (rule split_on_absent)
      with h(1) show False by simp
    qed
    with sp h(1) have eq: "sn = sn'" "ex = ex'"
      by simp_all
    have one: "split_on CHR ''-'' sn = [sn]"
      using h(2) eq by (simp add: split_on_absent)
    from h(3) eq have k1: "\<forall>s \<in> set (split_on CHR '';'' ex). hd (split_on CHR ''='' s) \<noteq> ''discriminant''"
      and k2: "\<forall>s \<in> set (split_on CHR '';'' ex). hd (split_on CHR ''='' s) \<noteq> ''standard_name''"
      by simp_all
    have "map_of d ''discriminant'' = map_of (initial_dict c sn) ''discriminant''"
      by (rule same [OF _ k1]) simp
    moreover have "map_of d ''standard_name'' = map_of (initial_dict c sn) ''standard_name''"
      by (rule same [OF _ k2]) simp
    ultimately show ?thesis
      using init one eq by simp
  qed
  show ?thesis
  proof (intro conjI allI impI)
    show "map_of d ''discriminant'' \<noteq> None" by (rule first)
  next
    fix sn' ex'
    assume "split_on CHR ''#'' c = [sn', ex'] \<and> CHR ''-'' \<notin> set sn'
           \<and> (\<forall>s \<in> set (split_on CHR '';'' ex').
                  hd (split_on CHR ''='' s) \<notin> {''discriminant'', ''standard_name''})"
    then have h1: "split_on CHR ''#'' c = [sn', ex']" and h2: "CHR ''-'' \<notin> set sn'"
      and h3: "\<forall>s \<in> set (split_on CHR '';'' ex').
                  hd (split_on CHR ''='' s) \<notin> {''discriminant'', ''standard_name''}"
      by blast+
    from second [OF h1 h2 h3]
    show "map_of d ''discriminant'' = Some sn'" "map_of d ''standard_name'' = Some sn'"
      by simp_all
  qed
qed

theorem discriminant_from_clause_text_witness:
  "\<exists>d. dictify_urn ''urn:ioos:sensor:axiom:station1:foo#cell_methods=time:me-an'' True = Inr d
     \<and> map_of d ''discriminant'' = Some ''foo'' \<and> map_of d ''standard_name'' = Some ''foo''"
proof -
  have u: "IoosUrn_from_string ''urn:ioos:sensor:axiom:station1:foo#cell_methods=time:me-an''
        = \<lparr>asset_type = Some ''sensor'', authority = Some ''axiom'', label = Some ''station1'',
            component = Some ''foo#cell_methods=time:me-an'', version = None\<rparr>"
    by code_simp
  have run: "dictify_urn ''urn:ioos:sensor:axiom:station1:foo#cell_methods=time:me-an'' True
        = Inr [(''standard_name'', ''foo''), (''discriminant'', ''foo''), (''cell_methods'', ''time: me-an'')]"
    by code_simp
  have sp: "split_on CHR ''#'' ''foo#cell_methods=time:me-an'' = [''foo'', ''cell_methods=time:me-an'']"
    by code_simp
  have keys: "\<forall>s \<in> set (split_on CHR '';'' ''cell_methods=time:me-an'').
                  hd (split_on CHR ''='' s) \<notin> {''discriminant'', ''standard_name''}"
    by code_simp
  from discriminant_from_clause_text
    [of "''urn:ioos:sensor:axiom:station1:foo#cell_methods=time:me-an''"
        "''foo#cell_methods=time:me-an''" True, OF _ _ _ _ run]
    u sp keys
  show ?thesis
    by (simp add: valid_def run)
qed

text \<open>
  The claim C10 as it is stated fails: the hyphen is in the text of a clause only, the
  name \<^verbatim>\<open>foo\<close> has none, and the discriminant that is returned is the value of the clause,
  not the name.
\<close>

theorem discriminant_overwritten_by_clause:
  "dictify_urn ''urn:ioos:sensor:axiom:station1:foo#discriminant=x-y'' True
     = Inr [(''standard_name'', ''foo''), (''discriminant'', ''x-y'')]"
  by code_simp

subsection \<open>The round trip of the codec\<close>

















































end
